theory Spec2Isabelle
  imports Complex_Main "HOL-Library.Log_Nat" "HOL-Library.Word"
begin

section \<open>Errors\<close>

text \<open>
  The exceptions that the code of \<^verbatim>\<open>datamodule.py\<close> can raise by itself: the
  \<^verbatim>\<open>assert\<close> statements, Python's arithmetic on floats, the operator \<^verbatim>\<open>/\<close> on a
  \<^verbatim>\<open>str\<close>, a dictionary lookup, and the read of an attribute that was never assigned.
\<close>

datatype error =
    AssertionError
  | OverflowError
  | ValueError
  | ZeroDivisionError
  | TypeError
  | KeyError
  | AttributeError

section \<open>Tensors and \<^verbatim>\<open>CenterCropMinXY\<close>\<close>

text \<open>
  A rank-3 tensor as \<^verbatim>\<open>CenterCropMinXY.__call__\<close> unpacks it
  (\<^verbatim>\<open>_, h, w = image.shape\<close>): its shape and its entries, channel by channel, row by
  row. The shape is kept beside the entries, since a tensor with no channel still has
  a height and a width.
\<close>

record 'a tensor =
  channels :: nat
  height :: nat
  width :: nat
  pixels :: "'a list list list"

definition wf_tensor :: "'a tensor \<Rightarrow> bool" where
  "wf_tensor t \<longleftrightarrow>
     length (pixels t) = channels t \<and>
     list_all (\<lambda>ch. length ch = height t \<and> list_all (\<lambda>row. length row = width t) ch)
       (pixels t)"

text \<open>What a transform may be handed: a tensor, or anything else (a PIL image, an array).\<close>

datatype 'a pic = Tensor "'a tensor" | NotATensor

text \<open>Python's \<^verbatim>\<open>xs[a:b]\<close> for \<open>0 \<le> a\<close> and \<open>0 \<le> b\<close>: both ends are clamped to the length.\<close>

definition py_slice :: "'a list \<Rightarrow> nat \<Rightarrow> nat \<Rightarrow> 'a list" where
  "py_slice xs a b = take (b - a) (drop a xs)"

text \<open>\<^verbatim>\<open>image[:, r0:r1, c0:c1]\<close> on a rank-3 tensor.\<close>

definition slice_rows_cols :: "'a tensor \<Rightarrow> nat \<Rightarrow> nat \<Rightarrow> nat \<Rightarrow> nat \<Rightarrow> 'a tensor" where
  "slice_rows_cols t r0 r1 c0 c1 =
     \<lparr> channels = channels t,
       height = min r1 (height t) - min r0 (height t),
       width = min c1 (width t) - min c0 (width t),
       pixels = map (\<lambda>ch. map (\<lambda>row. py_slice row c0 c1) (py_slice ch r0 r1)) (pixels t) \<rparr>"

definition CenterCropMinXY_call :: "'a pic \<Rightarrow> error + 'a tensor" where
  "CenterCropMinXY_call img =
     (case img of
        NotATensor \<Rightarrow> Inl AssertionError
      | Tensor t \<Rightarrow>
          (let h = height t;
               w = width t;
               min_dim = min h w;
               top = (h - min_dim) div 2;
               left = (w - min_dim) div 2
           in Inr (slice_rows_cols t top (top + min_dim) left (left + min_dim))))"

section \<open>Python floats\<close>

text \<open>
  A Python \<^verbatim>\<open>float\<close> is an IEEE 754 binary64 value: a finite double, given here by
  the rational number it denotes, an infinity, or a NaN. (The sign of a zero is not
  kept: nothing below can tell \<open>-0.0\<close> from \<open>0.0\<close>.) The doubles are the rationals
  that \<open>round_to_double\<close> below leaves as they are; what is proved about a \<open>Finite\<close>
  argument holds for every rational, so for every double.
\<close>

datatype pyfloat = Finite rat | PosInf | NegInf | NaN

text \<open>\<open>ilog2 x\<close> is \<open>\<lfloor>log\<^sub>2 x\<rfloor>\<close> for a positive rational \<open>x\<close>.\<close>

definition ilog2 :: "rat \<Rightarrow> int" where
  "ilog2 x = (let (a, b) = quotient_of x; k = bitlen a - bitlen b
              in if 2 powi k \<le> x then k else k - 1)"

text \<open>Rounding to the nearest integer, a tie going to the even one.\<close>

definition round_half_even :: "rat \<Rightarrow> int" where
  "round_half_even x =
     (let f = \<lfloor>x\<rfloor>; r = x - of_int f
      in if r < 1 / 2 then f else if 1 / 2 < r then f + 1 else if even f then f else f + 1)"

text \<open>
  The nearest double of a rational number, with an unbounded exponent above: a
  significand of 53 bits at the exponent of \<open>x\<close>, and of fewer bits below \<open>2\<^sup>-\<^sup>1\<^sup>0\<^sup>2\<^sup>2\<close>
  (the subnormal numbers, multiples of \<open>2\<^sup>-\<^sup>1\<^sup>0\<^sup>7\<^sup>4\<close>); ties go to the even significand.
\<close>

definition round_to_double :: "rat \<Rightarrow> rat" where
  "round_to_double x =
     (if x = 0 then 0
      else let e = ilog2 \<bar>x\<bar>;
               p = max (e - 52) (- 1074);
               m = round_half_even (\<bar>x\<bar> / 2 powi p)
           in sgn x * of_int m * 2 powi p)"

text \<open>The result of an IEEE operation whose exact value is \<open>x\<close>: an infinity when the
  rounded value does not fit under \<open>2\<^sup>1\<^sup>0\<^sup>2\<^sup>4\<close>.\<close>

definition to_pyfloat :: "rat \<Rightarrow> pyfloat" where
  "to_pyfloat x =
     (let r = round_to_double x
      in if 2 ^ 1024 \<le> r then PosInf else if r \<le> - (2 ^ 1024) then NegInf else Finite r)"

text \<open>\<^verbatim>\<open>a / b\<close> on two \<^verbatim>\<open>int\<close>s: the correctly rounded quotient, or an exception.\<close>

definition py_int_truediv :: "int \<Rightarrow> int \<Rightarrow> error + pyfloat" where
  "py_int_truediv a b =
     (if b = 0 then Inl ZeroDivisionError
      else case to_pyfloat (of_int a / of_int b) of
             Finite r \<Rightarrow> Inr (Finite r)
           | _ \<Rightarrow> Inl OverflowError)"

text \<open>The conversion of an \<^verbatim>\<open>int\<close> operand to \<^verbatim>\<open>float\<close>.\<close>

definition py_float_of_int :: "int \<Rightarrow> error + pyfloat" where
  "py_float_of_int n =
     (case to_pyfloat (of_int n) of
        Finite r \<Rightarrow> Inr (Finite r)
      | _ \<Rightarrow> Inl OverflowError)"

text \<open>\<^verbatim>\<open>x * y\<close> on two \<^verbatim>\<open>float\<close>s: it never raises.\<close>

fun py_float_mul :: "pyfloat \<Rightarrow> pyfloat \<Rightarrow> pyfloat" where
  "py_float_mul NaN y = NaN"
| "py_float_mul x NaN = NaN"
| "py_float_mul (Finite x) (Finite y) = to_pyfloat (x * y)"
| "py_float_mul (Finite x) PosInf = (if x = 0 then NaN else if 0 < x then PosInf else NegInf)"
| "py_float_mul (Finite x) NegInf = (if x = 0 then NaN else if 0 < x then NegInf else PosInf)"
| "py_float_mul PosInf (Finite y) = (if y = 0 then NaN else if 0 < y then PosInf else NegInf)"
| "py_float_mul NegInf (Finite y) = (if y = 0 then NaN else if 0 < y then NegInf else PosInf)"
| "py_float_mul PosInf PosInf = PosInf"
| "py_float_mul PosInf NegInf = NegInf"
| "py_float_mul NegInf PosInf = NegInf"
| "py_float_mul NegInf NegInf = PosInf"

text \<open>\<^verbatim>\<open>int(x)\<close> on a \<^verbatim>\<open>float\<close>: truncation towards zero.\<close>

definition py_int_of_float :: "pyfloat \<Rightarrow> error + int" where
  "py_int_of_float x =
     (case x of
        Finite r \<Rightarrow> Inr (if 0 \<le> r then \<lfloor>r\<rfloor> else \<lceil>r\<rceil>)
      | PosInf \<Rightarrow> Inl OverflowError
      | NegInf \<Rightarrow> Inl OverflowError
      | NaN \<Rightarrow> Inl ValueError)"

text \<open>Sequencing: the second computation runs when the first did not raise.\<close>

definition try_then :: "error + 'a \<Rightarrow> ('a \<Rightarrow> error + 'b) \<Rightarrow> error + 'b" where
  "try_then r f = (case r of Inl e \<Rightarrow> Inl e | Inr v \<Rightarrow> f v)"

text \<open>\<^verbatim>\<open>n * y\<close> for an \<^verbatim>\<open>int\<close> \<open>n\<close> and a \<^verbatim>\<open>float\<close> \<open>y\<close>.\<close>

definition py_int_mul_float :: "int \<Rightarrow> pyfloat \<Rightarrow> error + pyfloat" where
  "py_int_mul_float n y = try_then (py_float_of_int n) (\<lambda>x. Inr (py_float_mul x y))"

section \<open>What the module hands to torch and torchvision\<close>

text \<open>
  The transforms, datasets and data loaders are objects of external libraries. The
  module only constructs them; each is represented by its constructor call, with the
  arguments the module passes (\<open>None\<close> for a keyword argument it leaves out). What the
  dataset constructors do with the files they find, and the errors they raise on files
  that are missing, is outside this module; the checks that \<^verbatim>\<open>DataLoader\<close> makes on its
  arguments are written out below (\<open>DataLoader_init\<close>).
\<close>

datatype transform =
    ToTensor
  | Normalize "rat list" "rat list"
  | CenterCropMinXY
  | Resize int bool
  | RandomHorizontalFlip rat

datatype compose = Compose "transform list"

text \<open>\<^verbatim>\<open>Union[str, Path]\<close>: a path given as a string, or a \<^verbatim>\<open>pathlib.Path\<close> with its parts.\<close>

datatype pathlike = Str string | Path "string list"

text \<open>\<^verbatim>\<open>p / s\<close>: defined on a \<^verbatim>\<open>Path\<close>; on two strings Python raises \<^verbatim>\<open>TypeError\<close>.\<close>

definition path_truediv :: "pathlike \<Rightarrow> string \<Rightarrow> error + pathlike" where
  "path_truediv p s = (case p of Str _ \<Rightarrow> Inl TypeError | Path parts \<Rightarrow> Inr (Path (parts @ [s])))"

text \<open>
  The dataset constructors, with their arguments in this order:
  \<^item> \<open>MNIST root train transform download\<close>
  \<^item> \<open>LSUN root classes transform\<close>
  \<^item> \<open>CelebA root split target_type transform download\<close>
  \<^item> \<open>Flowers102 root split transform download\<close>
  \<^item> \<open>SEN12MSCR root split transform\<close>
  \<^item> \<open>RandomSplitPart d lengths k\<close>: the \<open>k\<close>-th of the subsets that
    \<^verbatim>\<open>random_split(d, lengths)\<close> returns.
\<close>

datatype dataset =
    MNIST pathlike bool "compose option" "bool option"
  | LSUN pathlike "string list" "compose option"
  | CelebA pathlike string string "compose option" "bool option"
  | Flowers102 pathlike string "compose option" "bool option"
  | SEN12MSCR pathlike string "compose option"
  | RandomSplitPart dataset "int list" nat

definition random_split :: "dataset \<Rightarrow> int list \<Rightarrow> dataset list" where
  "random_split d lengths = map (RandomSplitPart d lengths) [0 ..< length lengths]"

text \<open>The keyword arguments of a \<^verbatim>\<open>DataLoader(...)\<close> call.\<close>

record DataLoader =
  dl_dataset :: dataset
  dl_batch_size :: int
  dl_num_workers :: int
  dl_pin_memory :: bool
  dl_persistent_workers :: bool
  dl_shuffle :: "bool option"

section \<open>The data module\<close>

text \<open>
  The attributes of a \<^verbatim>\<open>DataModule\<close>. The three datasets are assigned by \<^verbatim>\<open>setup\<close>
  only: \<open>None\<close> stands for an attribute that does not exist yet.
\<close>

record DataModule =
  name :: string
  data_dir :: pathlike
  img_size :: int
  img_channels :: int
  batch_size :: int
  num_workers :: int
  pin_memory :: bool
  persistent_workers :: bool
  train_val_split :: pyfloat
  download :: bool
  transforms :: "string \<rightharpoonup> compose"
  train_dataset :: "dataset option"
  val_dataset :: "dataset option"
  test_dataset :: "dataset option"

text \<open>\<^verbatim>\<open>d[k]\<close> on a dictionary, and the read of an attribute.\<close>

definition getitem :: "('k \<rightharpoonup> 'v) \<Rightarrow> 'k \<Rightarrow> error + 'v" where
  "getitem d k = (case d k of None \<Rightarrow> Inl KeyError | Some v \<Rightarrow> Inr v)"

definition getattr :: "'a option \<Rightarrow> error + 'a" where
  "getattr a = (case a of None \<Rightarrow> Inl AttributeError | Some v \<Rightarrow> Inr v)"

text \<open>
  \<^verbatim>\<open>sanity_check\<close> (the \<^verbatim>\<open>assert\<close> statements are taken as enabled).
\<close>

definition sanity_check :: "DataModule \<Rightarrow> error + unit" where
  "sanity_check self =
     (if name self = ''MNIST'' then
        (if img_channels self = 1 then Inr () else Inl AssertionError)
      else if name self = ''SEN12MSCR'' then
        (if img_channels self = 2 then Inr () else Inl AssertionError)
      else
        (if img_channels self = 3 then Inr () else Inl AssertionError))"

text \<open>
  Line 52 of \<^verbatim>\<open>__init__\<close>:
  \<^verbatim>\<open>int(batch_size / (torch.cuda.device_count() if torch.cuda.device_count() > 1 else 1))\<close>,
  with the number of CUDA devices as a parameter.
\<close>

definition effective_batch_size :: "nat \<Rightarrow> int \<Rightarrow> error + int" where
  "effective_batch_size device_count n =
     try_then (py_int_truediv n (if device_count > 1 then int device_count else 1))
       py_int_of_float"

text \<open>The dictionary \<^verbatim>\<open>self.transforms\<close> that \<^verbatim>\<open>__init__\<close> builds (lines 60 to 95).\<close>

definition build_transforms :: "int \<Rightarrow> int \<Rightarrow> (string \<rightharpoonup> compose)" where
  "build_transforms sz chans =
     [''train'' \<mapsto> Compose
        [ToTensor,
         Normalize (replicate (nat chans) (1 / 2)) (replicate (nat chans) (1 / 2)),
         CenterCropMinXY,
         Resize sz True,
         RandomHorizontalFlip (1 / 2)],
      ''val'' \<mapsto> Compose
        [ToTensor,
         Normalize (replicate (nat chans) (1 / 2)) (replicate (nat chans) (1 / 2)),
         CenterCropMinXY,
         Resize sz True],
      ''test'' \<mapsto> Compose
        [ToTensor,
         Normalize (replicate (nat chans) (1 / 2)) (replicate (nat chans) (1 / 2)),
         CenterCropMinXY,
         Resize sz True]]"

text \<open>
  \<^verbatim>\<open>DataModule.__init__\<close>. The first argument is what \<^verbatim>\<open>torch.cuda.device_count()\<close>
  returns; the others are the constructor's, in its order.
\<close>

definition init ::
  "nat \<Rightarrow> string \<Rightarrow> int \<Rightarrow> int \<Rightarrow> pathlike \<Rightarrow> int \<Rightarrow> int \<Rightarrow> bool \<Rightarrow> bool \<Rightarrow> pyfloat \<Rightarrow> bool
     \<Rightarrow> error + DataModule" where
  "init device_count nm sz chans dir bsize workers pin persistent split dl =
     try_then (effective_batch_size device_count bsize) (\<lambda>b.
       let self = \<lparr> name = nm, data_dir = dir, img_size = sz, img_channels = chans,
                    batch_size = b, num_workers = workers, pin_memory = pin,
                    persistent_workers = persistent, train_val_split = split,
                    download = dl, transforms = Map.empty,
                    train_dataset = None, val_dataset = None, test_dataset = None \<rparr>
       in try_then (sanity_check self) (\<lambda>_.
            Inr (self\<lparr>transforms := build_transforms (img_size self) (img_channels self)\<rparr>)))"

text \<open>
  The constructor with its default arguments; \<open>0.8\<close> is the double
  \<open>3602879701896397 / 2\<^sup>5\<^sup>2\<close>. \<^verbatim>\<open>DATASET_PATH\<close> comes from \<^verbatim>\<open>utils.path\<close> and is a
  parameter here.
\<close>

definition init_default :: "nat \<Rightarrow> pathlike \<Rightarrow> string \<Rightarrow> int \<Rightarrow> int \<Rightarrow> error + DataModule" where
  "init_default device_count DATASET_PATH nm sz chans =
     init device_count nm sz chans DATASET_PATH 32 0 True True
       (Finite (3602879701896397 / 4503599627370496)) True"

text \<open>
  \<^verbatim>\<open>prepare_data\<close>: the object afterwards, and the dataset constructors called, in
  order.
\<close>

definition prepare_data :: "DataModule \<Rightarrow> DataModule \<times> dataset list" where
  "prepare_data self =
     (if name self = ''MNIST'' then
        (self, [MNIST (data_dir self) True None (Some (download self)),
                MNIST (data_dir self) False None (Some (download self))])
      else if name self = ''CelebA'' then
        (self, map (\<lambda>split. CelebA (data_dir self) split ''attr'' None (Some (download self)))
                 [''train'', ''valid'', ''test''])
      else if name self = ''Flowers102'' then
        (self, map (\<lambda>split. Flowers102 (data_dir self) split None (Some (download self)))
                 [''train'', ''val'', ''test''])
      else (self, []))"

text \<open>
  Lines 128 and 129 of \<^verbatim>\<open>setup\<close>, for a full training set of \<open>n\<close> items:
  \<^verbatim>\<open>num_train = int(n * train_val_split)\<close> and \<^verbatim>\<open>num_val = n - num_train\<close>.
\<close>

definition num_train_val :: "nat \<Rightarrow> pyfloat \<Rightarrow> error + int \<times> int" where
  "num_train_val n split =
     try_then (py_int_mul_float (int n) split) (\<lambda>x.
     try_then (py_int_of_float x) (\<lambda>num_train.
       Inr (num_train, int n - num_train)))"

text \<open>
  \<^verbatim>\<open>DataModule.setup\<close> (\<open>setup\<close> alone is a keyword of Isabelle). The first argument
  is the length of the MNIST training set that torchvision loads. When an exception is
  raised the result is the exception only.
\<close>

definition setup_datasets :: "nat \<Rightarrow> DataModule \<Rightarrow> string option \<Rightarrow> error + DataModule" where
  "setup_datasets mnist_len self stage =
     (if name self = ''MNIST'' then
        try_then (getitem (transforms self) ''train'') (\<lambda>train_tf.
        let full_train_dataset = MNIST (data_dir self) True (Some train_tf) None in
        try_then (num_train_val mnist_len (train_val_split self)) (\<lambda>(num_train, num_val).
        case random_split full_train_dataset [num_train, num_val] of
          [train_part, val_part] \<Rightarrow>
            try_then (getitem (transforms self) ''test'') (\<lambda>test_tf.
              Inr (self\<lparr>train_dataset := Some train_part,
                        val_dataset := Some val_part,
                        test_dataset := Some (MNIST (data_dir self) False (Some test_tf) None)\<rparr>))
        | _ \<Rightarrow> Inl ValueError))
      else if name self = ''LSUN'' then
        let classes = [''bedroom''];
            train_classes = map (\<lambda>sub_class. sub_class @ ''_train'') classes;
            val_classes = map (\<lambda>sub_class. sub_class @ ''_val'') classes;
            test_classes = map (\<lambda>sub_class. sub_class @ ''_val'') classes
        in
        try_then (path_truediv (data_dir self) ''LSUN'') (\<lambda>train_root.
        try_then (getitem (transforms self) ''train'') (\<lambda>train_tf.
        try_then (path_truediv (data_dir self) ''LSUN'') (\<lambda>val_root.
        try_then (getitem (transforms self) ''val'') (\<lambda>val_tf.
        try_then (path_truediv (data_dir self) ''LSUN'') (\<lambda>test_root.
        try_then (getitem (transforms self) ''test'') (\<lambda>test_tf.
          Inr (self\<lparr>train_dataset := Some (LSUN train_root train_classes (Some train_tf)),
                    val_dataset := Some (LSUN val_root val_classes (Some val_tf)),
                    test_dataset := Some (LSUN test_root test_classes (Some test_tf))\<rparr>)))))))
      else if name self = ''CelebA'' then
        try_then (getitem (transforms self) ''train'') (\<lambda>train_tf.
        try_then (getitem (transforms self) ''val'') (\<lambda>val_tf.
        try_then (getitem (transforms self) ''test'') (\<lambda>test_tf.
          Inr (self\<lparr>train_dataset := Some (CelebA (data_dir self) ''train'' ''attr'' (Some train_tf) None),
                    val_dataset := Some (CelebA (data_dir self) ''valid'' ''attr'' (Some val_tf) None),
                    test_dataset := Some (CelebA (data_dir self) ''test'' ''attr'' (Some test_tf) None)\<rparr>))))
      else if name self = ''Flowers102'' then
        try_then (getitem (transforms self) ''train'') (\<lambda>train_tf.
        try_then (getitem (transforms self) ''val'') (\<lambda>val_tf.
        try_then (getitem (transforms self) ''test'') (\<lambda>test_tf.
          Inr (self\<lparr>train_dataset := Some (Flowers102 (data_dir self) ''train'' (Some train_tf) None),
                    val_dataset := Some (Flowers102 (data_dir self) ''val'' (Some val_tf) None),
                    test_dataset := Some (Flowers102 (data_dir self) ''test'' (Some test_tf) None)\<rparr>))))
      else if name self = ''SEN12MSCR'' then
        try_then (getitem (transforms self) ''train'') (\<lambda>train_tf.
        try_then (getitem (transforms self) ''val'') (\<lambda>val_tf.
        try_then (getitem (transforms self) ''test'') (\<lambda>test_tf.
          Inr (self\<lparr>train_dataset := Some (SEN12MSCR (data_dir self) ''train'' (Some train_tf)),
                    val_dataset := Some (SEN12MSCR (data_dir self) ''val'' (Some val_tf)),
                    test_dataset := Some (SEN12MSCR (data_dir self) ''test'' (Some test_tf))\<rparr>))))
      else Inr self)"

text \<open>
  The checks that torch's \<^verbatim>\<open>DataLoader\<close> constructor makes on the arguments that the module
  passes (torch is not code of this repository; taken from
  \<^verbatim>\<open>torch.utils.data.DataLoader.__init__\<close>): \<^verbatim>\<open>num_workers\<close> must not be negative,
  \<^verbatim>\<open>persistent_workers\<close> needs \<^verbatim>\<open>num_workers > 0\<close>, with \<^verbatim>\<open>shuffle=True\<close> the \<^verbatim>\<open>RandomSampler\<close>
  needs a dataset that is not empty, and the \<^verbatim>\<open>BatchSampler\<close> needs a positive
  \<^verbatim>\<open>batch_size\<close>. Each failure is a \<^verbatim>\<open>ValueError\<close>. The first argument is \<^verbatim>\<open>len(dataset)\<close>.
\<close>

definition DataLoader_init :: "nat \<Rightarrow> DataLoader \<Rightarrow> error + DataLoader" where
  "DataLoader_init dataset_len args =
     (if dl_num_workers args < 0 then Inl ValueError
      else if dl_persistent_workers args \<and> dl_num_workers args = 0 then Inl ValueError
      else if dl_shuffle args = Some True \<and> dataset_len = 0 then Inl ValueError
      else if dl_batch_size args \<le> 0 then Inl ValueError
      else Inr args)"

text \<open>
  The three data loader methods. The first argument of each is the length of the
  dataset of its role.
\<close>

definition train_dataloader :: "nat \<Rightarrow> DataModule \<Rightarrow> error + DataLoader" where
  "train_dataloader dataset_len self =
     try_then (getattr (train_dataset self)) (\<lambda>d.
       DataLoader_init dataset_len
         \<lparr> dl_dataset = d, dl_batch_size = batch_size self,
           dl_num_workers = num_workers self, dl_pin_memory = pin_memory self,
           dl_persistent_workers = persistent_workers self, dl_shuffle = Some True \<rparr>)"

definition val_dataloader :: "nat \<Rightarrow> DataModule \<Rightarrow> error + DataLoader" where
  "val_dataloader dataset_len self =
     try_then (getattr (val_dataset self)) (\<lambda>d.
       DataLoader_init dataset_len
         \<lparr> dl_dataset = d, dl_batch_size = batch_size self,
           dl_num_workers = num_workers self, dl_pin_memory = pin_memory self,
           dl_persistent_workers = persistent_workers self, dl_shuffle = None \<rparr>)"

definition test_dataloader :: "nat \<Rightarrow> DataModule \<Rightarrow> error + DataLoader" where
  "test_dataloader dataset_len self =
     try_then (getattr (test_dataset self)) (\<lambda>d.
       DataLoader_init dataset_len
         \<lparr> dl_dataset = d, dl_batch_size = batch_size self,
           dl_num_workers = num_workers self, dl_pin_memory = pin_memory self,
           dl_persistent_workers = persistent_workers self, dl_shuffle = None \<rparr>)"

section \<open>Notions of the specification\<close>

text \<open>
  The number of channels that the specification requires for a dataset name: 1 for
  MNIST, 2 for SEN12MSCR, 3 for every other name.
\<close>

definition spec_required_channels :: "string \<Rightarrow> int" where
  "spec_required_channels nm = (if nm = ''MNIST'' then 1 else if nm = ''SEN12MSCR'' then 2 else 3)"

text \<open>The transforms of a composition, and the \<^verbatim>\<open>Normalize\<close> steps that a module applies
  under a key of its dictionary.\<close>

fun chain :: "compose \<Rightarrow> transform list" where
  "chain (Compose ts) = ts"

fun is_Normalize :: "transform \<Rightarrow> bool" where
  "is_Normalize (Normalize mean std) = True"
| "is_Normalize t = False"

definition normalization_of :: "DataModule \<Rightarrow> string \<Rightarrow> transform list" where
  "normalization_of self k =
     (case transforms self k of None \<Rightarrow> [] | Some c \<Rightarrow> filter is_Normalize (chain c))"

text \<open>The dataset class that a dataset object belongs to; a part of a random split belongs
  to the class of the dataset that was split.\<close>

fun dataset_family :: "dataset \<Rightarrow> string" where
  "dataset_family (MNIST rt train tf dl) = ''MNIST''"
| "dataset_family (LSUN rt classes tf) = ''LSUN''"
| "dataset_family (CelebA rt split target_type tf dl) = ''CelebA''"
| "dataset_family (Flowers102 rt split tf dl) = ''Flowers102''"
| "dataset_family (SEN12MSCR rt split tf) = ''SEN12MSCR''"
| "dataset_family (RandomSplitPart d lengths k) = dataset_family d"

text \<open>
  The stored data that a dataset object reads, whatever transform it applies: the
  dataset class, the root directory and the split (for MNIST the \<^verbatim>\<open>train\<close> flag, for
  LSUN the class names). A part of a random split reads from the split of the dataset
  that was split.
\<close>

datatype split_id = SplitId string pathlike "string list"

fun base_split :: "dataset \<Rightarrow> split_id" where
  "base_split (MNIST rt train tf dl) =
     SplitId ''MNIST'' rt [if train then ''train=True'' else ''train=False'']"
| "base_split (LSUN rt classes tf) = SplitId ''LSUN'' rt classes"
| "base_split (CelebA rt split target_type tf dl) = SplitId ''CelebA'' rt [split]"
| "base_split (Flowers102 rt split tf dl) = SplitId ''Flowers102'' rt [split]"
| "base_split (SEN12MSCR rt split tf) = SplitId ''SEN12MSCR'' rt [split]"
| "base_split (RandomSplitPart d lengths k) = base_split d"

text \<open>
  Two dataset objects read separate data when they read from different stored splits,
  or when they are two different parts of the same random split. A part and the dataset
  it was cut from, or two objects on the same stored split, do not.
\<close>

fun separate_data :: "dataset \<Rightarrow> dataset \<Rightarrow> bool" where
  "separate_data (RandomSplitPart d lengths k) (RandomSplitPart d' lengths' k') \<longleftrightarrow>
     base_split d \<noteq> base_split d' \<or> (d = d' \<and> lengths = lengths' \<and> k \<noteq> k')"
| "separate_data d d' \<longleftrightarrow> base_split d \<noteq> base_split d'"

text \<open>
  The three datasets of a module are assigned and read the stored splits \<open>s\<^sub>1\<close>, \<open>s\<^sub>2\<close>
  and \<open>s\<^sub>3\<close>; and they are assigned and read pairwise separate data.
\<close>

definition roles_read :: "DataModule \<Rightarrow> split_id \<Rightarrow> split_id \<Rightarrow> split_id \<Rightarrow> bool" where
  "roles_read self s1 s2 s3 \<longleftrightarrow>
     map_option base_split (train_dataset self) = Some s1 \<and>
     map_option base_split (val_dataset self) = Some s2 \<and>
     map_option base_split (test_dataset self) = Some s3"

definition roles_separate :: "DataModule \<Rightarrow> bool" where
  "roles_separate self \<longleftrightarrow>
     (case (train_dataset self, val_dataset self, test_dataset self) of
        (Some tr, Some va, Some te) \<Rightarrow>
          separate_data tr va \<and> separate_data tr te \<and> separate_data va te
      | _ \<Rightarrow> False)"

text \<open>
  The transform that a dataset object applies to its items; a part of a random split
  hands out the items of the dataset that was split, with that dataset's transform.
\<close>

fun applied_transform :: "dataset \<Rightarrow> compose option" where
  "applied_transform (MNIST rt train tf dl) = tf"
| "applied_transform (LSUN rt classes tf) = tf"
| "applied_transform (CelebA rt split target_type tf dl) = tf"
| "applied_transform (Flowers102 rt split tf dl) = tf"
| "applied_transform (SEN12MSCR rt split tf) = tf"
| "applied_transform (RandomSplitPart d lengths k) = applied_transform d"

text \<open>
  The three datasets of a module are assigned, and the training, validation and test
  dataset apply the chains that the dictionary holds under the keys \<open>k\<^sub>1\<close>, \<open>k\<^sub>2\<close> and
  \<open>k\<^sub>3\<close>.
\<close>

definition roles_apply :: "DataModule \<Rightarrow> string \<Rightarrow> string \<Rightarrow> string \<Rightarrow> bool" where
  "roles_apply self k1 k2 k3 \<longleftrightarrow>
     map_option applied_transform (train_dataset self) = Some (transforms self k1) \<and>
     map_option applied_transform (val_dataset self) = Some (transforms self k2) \<and>
     map_option applied_transform (test_dataset self) = Some (transforms self k3)"

text \<open>The three datasets of a module are assigned and belong to the class \<open>f\<close>.\<close>

definition all_of_family :: "string \<Rightarrow> DataModule \<Rightarrow> bool" where
  "all_of_family f self \<longleftrightarrow>
     map_option dataset_family (train_dataset self) = Some f \<and>
     map_option dataset_family (val_dataset self) = Some f \<and>
     map_option dataset_family (test_dataset self) = Some f"

text \<open>
  The settings of a module with which the loaders below are proved to be returned: a
  positive stored batch size, and a number of workers that is not negative and is
  positive when the workers are persistent.
\<close>

definition settings_accepted :: "DataModule \<Rightarrow> bool" where
  "settings_accepted self \<longleftrightarrow>
     0 < batch_size self \<and> 0 \<le> num_workers self \<and>
     (persistent_workers self \<longrightarrow> 0 < num_workers self)"

section \<open>Properties of \<^verbatim>\<open>CenterCropMinXY\<close>\<close>

lemma py_slice_whole: "length xs \<le> n \<Longrightarrow> py_slice xs 0 n = xs"
  by (simp add: py_slice_def)

lemma py_slice_length: "b \<le> length xs \<Longrightarrow> length (py_slice xs a b) = b - a"
  by (simp add: py_slice_def)

lemma py_slice_nth: "a + i < b \<Longrightarrow> b \<le> length xs \<Longrightarrow> py_slice xs a b ! i = xs ! (a + i)"
  by (simp add: py_slice_def)

lemma crop_top_bound: "(h - min h w) div 2 + min h w \<le> (h::nat)"
  by (simp add: min_def) arith

lemma crop_left_bound: "(w - min h w) div 2 + min h w \<le> (w::nat)"
  by (simp add: min_def) arith

lemma slice_rows_cols_wf:
  assumes "wf_tensor t"
  shows "wf_tensor (slice_rows_cols t r0 r1 c0 c1)"
  using assms
  by (auto simp: wf_tensor_def slice_rows_cols_def list_all_iff py_slice_def min_def
      dest!: in_set_takeD in_set_dropD)

lemma slice_rows_cols_nth:
  assumes "wf_tensor t" "k < channels t" "r0 + i < r1" "r1 \<le> height t"
    and "c0 + j < c1" "c1 \<le> width t"
  shows "pixels (slice_rows_cols t r0 r1 c0 c1) ! k ! i ! j = pixels t ! k ! (r0 + i) ! (c0 + j)"
proof -
  have lk: "k < length (pixels t)"
    using assms by (simp add: wf_tensor_def)
  then have ch: "pixels t ! k \<in> set (pixels t)"
    by simp
  then have lch: "length (pixels t ! k) = height t"
    and rows: "\<forall>row \<in> set (pixels t ! k). length row = width t"
    using assms(1) by (auto simp: wf_tensor_def list_all_iff)
  have "pixels t ! k ! (r0 + i) \<in> set (pixels t ! k)"
    using lch assms by simp
  then have lrow: "length (pixels t ! k ! (r0 + i)) = width t"
    using rows by blast
  have li: "i < length (py_slice (pixels t ! k) r0 r1)"
    using lch assms by (simp add: py_slice_length)
  have row: "py_slice (pixels t ! k) r0 r1 ! i = pixels t ! k ! (r0 + i)"
    using lch assms by (simp add: py_slice_nth)
  have "pixels (slice_rows_cols t r0 r1 c0 c1) ! k ! i ! j
      = py_slice (py_slice (pixels t ! k) r0 r1 ! i) c0 c1 ! j"
    using lk li by (simp add: slice_rows_cols_def)
  also have "\<dots> = pixels t ! k ! (r0 + i) ! (c0 + j)"
    using lrow assms by (simp add: row py_slice_nth)
  finally show ?thesis .
qed

lemma slice_rows_cols_whole:
  assumes "wf_tensor t"
  shows "slice_rows_cols t 0 (height t) 0 (width t) = t"
proof -
  have "map (\<lambda>ch. map (\<lambda>row. py_slice row 0 (width t)) (py_slice ch 0 (height t))) (pixels t)
      = pixels t"
    using assms by (auto simp: wf_tensor_def list_all_iff py_slice_whole intro!: map_idI)
  then show ?thesis
    by (simp add: slice_rows_cols_def)
qed

text \<open>
  C9. On a rank-3 tensor of shape \<open>(c, h, w)\<close> the crop succeeds and returns a tensor of
  shape \<open>(c, m, m)\<close> with \<open>m = min h w\<close>, whose entry \<open>(k, i, j)\<close> is the input's entry
  \<open>(k, top + i, left + j)\<close> for \<open>top = (h - m) div 2\<close> and \<open>left = (w - m) div 2\<close>; the
  number of channels is unchanged, and a square input comes back as it is. This holds
  for every well-formed tensor, so in particular when \<open>h \<ge> 1\<close> and \<open>w \<ge> 1\<close>.
\<close>

theorem CenterCropMinXY_centred_square:
  assumes "wf_tensor t"
  shows "\<exists>t'. CenterCropMinXY_call (Tensor t) = Inr t' \<and>
           wf_tensor t' \<and>
           channels t' = channels t \<and>
           height t' = min (height t) (width t) \<and>
           width t' = min (height t) (width t) \<and>
           (\<forall>k < channels t. \<forall>i < min (height t) (width t). \<forall>j < min (height t) (width t).
              pixels t' ! k ! i ! j =
              pixels t ! k ! ((height t - min (height t) (width t)) div 2 + i)
                           ! ((width t - min (height t) (width t)) div 2 + j)) \<and>
           (height t = width t \<longrightarrow> t' = t)"
proof -
  define m where "m = min (height t) (width t)"
  define top where "top = (height t - m) div 2"
  define left where "left = (width t - m) div 2"
  define t' where "t' = slice_rows_cols t top (top + m) left (left + m)"
  have call: "CenterCropMinXY_call (Tensor t) = Inr t'"
    by (simp add: CenterCropMinXY_call_def Let_def t'_def top_def left_def m_def)
  have tb: "top + m \<le> height t"
    unfolding top_def m_def by (rule crop_top_bound)
  have lb: "left + m \<le> width t"
    unfolding left_def m_def by (rule crop_left_bound)
  have wf: "wf_tensor t'"
    unfolding t'_def using assms by (rule slice_rows_cols_wf)
  have c: "channels t' = channels t"
    by (simp add: t'_def slice_rows_cols_def)
  have h: "height t' = m"
    using tb by (simp add: t'_def slice_rows_cols_def min_def)
  have w: "width t' = m"
    using lb by (simp add: t'_def slice_rows_cols_def min_def)
  have px: "pixels t' ! k ! i ! j = pixels t ! k ! (top + i) ! (left + j)"
    if "k < channels t" "i < m" "j < m" for k i j
    unfolding t'_def using assms that tb lb by (intro slice_rows_cols_nth) simp_all
  have sq: "t' = t" if "height t = width t"
  proof -
    from that have "m = height t" "m = width t" "top = 0" "left = 0"
      by (simp_all add: m_def top_def left_def)
    then show ?thesis
      using slice_rows_cols_whole [OF assms] by (simp add: t'_def)
  qed
  show ?thesis
    using call wf c h w px sq unfolding m_def top_def left_def by blast
qed

theorem CenterCropMinXY_centred_square_witness:
  "wf_tensor \<lparr>channels = 1, height = 2, width = 4,
              pixels = [[[1, 2, 3, 4], [5, 6, 7, 8 :: int]]]\<rparr> \<and>
   CenterCropMinXY_call (Tensor \<lparr>channels = 1, height = 2, width = 4,
              pixels = [[[1, 2, 3, 4], [5, 6, 7, 8 :: int]]]\<rparr>) =
     Inr \<lparr>channels = 1, height = 2, width = 2, pixels = [[[2, 3], [6, 7]]]\<rparr> \<and>
   (\<exists>t'. CenterCropMinXY_call (Tensor \<lparr>channels = 1, height = 2, width = 4,
              pixels = [[[1, 2, 3, 4], [5, 6, 7, 8 :: int]]]\<rparr>) = Inr t' \<and>
      height t' = 2 \<and> width t' = 2 \<and> channels t' = 1)"
proof -
  have wf: "wf_tensor \<lparr>channels = 1, height = 2, width = 4,
              pixels = [[[1, 2, 3, 4], [5, 6, 7, 8 :: int]]]\<rparr>"
    by (simp add: wf_tensor_def)
  have run: "CenterCropMinXY_call (Tensor \<lparr>channels = 1, height = 2, width = 4,
              pixels = [[[1, 2, 3, 4], [5, 6, 7, 8 :: int]]]\<rparr>) =
     Inr \<lparr>channels = 1, height = 2, width = 2, pixels = [[[2, 3], [6, 7]]]\<rparr>"
    by (simp add: CenterCropMinXY_call_def slice_rows_cols_def py_slice_def Let_def)
  from CenterCropMinXY_centred_square [OF wf] wf run show ?thesis
    by simp
qed

section \<open>Rounding to a double\<close>

lemma bitlen_powi:
  assumes "0 < a"
  shows "(2::rat) powi (bitlen a - 1) \<le> of_int a" "of_int a < (2::rat) powi (bitlen a)"
proof -
  from assms have ge: "1 \<le> bitlen a"
    by (auto simp: bitlen_alt_def)
  from bitlen_bounds [OF assms]
  have lo: "2 ^ nat (bitlen a - 1) \<le> a" and hi: "a < 2 ^ nat (bitlen a)"
    by simp_all
  have "(2::rat) powi (bitlen a - 1) = 2 ^ nat (bitlen a - 1)"
    using ge by (simp add: power_int_def)
  also have "\<dots> = of_int (2 ^ nat (bitlen a - 1))"
    by simp
  also have "\<dots> \<le> of_int a"
    using lo by (simp only: of_int_le_iff)
  finally show "(2::rat) powi (bitlen a - 1) \<le> of_int a" .
  have "(of_int a :: rat) < of_int (2 ^ nat (bitlen a))"
    using hi by (simp only: of_int_less_iff)
  also have "\<dots> = 2 ^ nat (bitlen a)"
    by simp
  also have "\<dots> = (2::rat) powi (bitlen a)"
    using ge by (simp add: power_int_def)
  finally show "of_int a < (2::rat) powi (bitlen a)" .
qed

lemma powi2_pos: "0 < (2::rat) powi k"
  by simp

lemma ilog2_bounds:
  assumes "0 < x"
  shows "2 powi (ilog2 x) \<le> x" "x < 2 powi (ilog2 x + 1)"
proof -
  obtain a b where q: "quotient_of x = (a, b)"
    by (cases "quotient_of x")
  then have b: "0 < b" and x: "x = of_int a / of_int b"
    by (simp_all add: quotient_of_denom_pos quotient_of_div)
  from assms x b have a: "0 < a"
    by (simp add: zero_less_divide_iff)
  define k where "k = bitlen a - bitlen b"
  have "x < 2 powi (bitlen a) / 2 powi (bitlen b - 1)"
    unfolding x using bitlen_powi [OF a] bitlen_powi [OF b] a b
    by (intro frac_less) simp_all
  also have "\<dots> = 2 powi (k + 1)"
    by (simp add: k_def power_int_diff [symmetric] algebra_simps)
  finally have hi: "x < 2 powi (k + 1)" .
  have "(2::rat) powi (k - 1) = 2 powi (bitlen a - 1) / 2 powi (bitlen b)"
    by (simp add: k_def power_int_diff [symmetric] algebra_simps)
  also have "\<dots> \<le> x"
    unfolding x using bitlen_powi [OF a] bitlen_powi [OF b] a b
    by (intro frac_le) simp_all
  finally have lo: "2 powi (k - 1) \<le> x" .
  have e: "ilog2 x = (if 2 powi k \<le> x then k else k - 1)"
    by (simp add: ilog2_def q k_def Let_def)
  show "2 powi (ilog2 x) \<le> x"
    using lo by (simp add: e)
  show "x < 2 powi (ilog2 x + 1)"
    using hi by (auto simp add: e not_le)
qed

lemma ilog2_unique:
  assumes "2 powi e \<le> x" "x < 2 powi (e + 1)"
  shows "ilog2 x = e"
proof -
  have pos: "0 < x"
    using assms(1) powi2_pos [of e] by linarith
  note b = ilog2_bounds [OF pos]
  have "(2::rat) powi e < 2 powi (ilog2 x + 1)"
    using assms(1) b(2) by linarith
  then have 1: "e < ilog2 x + 1"
    by (metis power_int_increasing not_le one_le_numeral)
  have "(2::rat) powi (ilog2 x) < 2 powi (e + 1)"
    using assms(2) b(1) by linarith
  then have 2: "ilog2 x < e + 1"
    by (metis power_int_increasing not_le one_le_numeral)
  from 1 2 show ?thesis by simp
qed

lemma round_half_even_of_int [simp]: "round_half_even (of_int n) = n"
  by (simp add: round_half_even_def)

lemma round_half_even_le:
  assumes "x \<le> of_int n"
  shows "round_half_even x \<le> n"
proof (cases "x = of_int n")
  case True
  then show ?thesis by simp
next
  case False
  with assms have "x < of_int n" by simp
  then have "\<lfloor>x\<rfloor> < n"
    by (simp add: floor_less_iff)
  then show ?thesis
    by (auto simp: round_half_even_def Let_def)
qed

lemma round_half_even_ge:
  assumes "of_int n \<le> x"
  shows "n \<le> round_half_even x"
proof -
  from assms have "n \<le> \<lfloor>x\<rfloor>"
    by (simp add: le_floor_iff)
  then show ?thesis
    by (auto simp: round_half_even_def Let_def)
qed

lemma round_half_even_less:
  assumes "x < of_int n - 1 / 2"
  shows "round_half_even x < n"
proof -
  have fl: "of_int \<lfloor>x\<rfloor> \<le> x" by simp
  from assms have "x < of_int n" by linarith
  then have less: "\<lfloor>x\<rfloor> < n" by (simp add: floor_less_iff)
  show ?thesis
  proof (cases "\<lfloor>x\<rfloor> = n - 1")
    case True
    then have "x - of_int \<lfloor>x\<rfloor> < 1 / 2"
      using assms by simp
    then show ?thesis
      using less by (simp add: round_half_even_def Let_def)
  next
    case False
    with less have "\<lfloor>x\<rfloor> + 1 < n" by simp
    then show ?thesis
      by (auto simp: round_half_even_def Let_def)
  qed
qed

lemma round_to_double_nonneg_low:
  fixes x :: rat
  assumes x: "0 < x" and e: "2 powi e \<le> x" "x < 2 powi (e + 1)"
  shows "round_to_double x = of_int (round_half_even (x / 2 powi (max (e - 52) (- 1074)))) * 2 powi (max (e - 52) (- 1074))"
  using x ilog2_unique [OF e] by (simp add: round_to_double_def Let_def)

lemma round_to_double_minus: "round_to_double (- x) = - round_to_double x"
  by (simp add: round_to_double_def Let_def sgn_minus)

lemma floor_rat_numeral_div:
  "\<lfloor>(numeral a :: rat) / numeral b\<rfloor> = numeral a div numeral b"
  using floor_divide_of_int_eq [of "numeral a" "numeral b", where ?'a = rat] by simp

lemma powi2_neg_eq:
  assumes "p \<le> 0"
  shows "1 / (2::rat) powi p = of_int (2 ^ nat (- p))"
proof -
  have "1 / (2::rat) powi p = 2 powi (- p)"
    by (simp add: power_int_minus field_simps)
  also have "\<dots> = 2 ^ nat (- p)"
    using assms by (simp add: power_int_def)
  finally show ?thesis by simp
qed

lemma round_to_double_pos_eq:
  assumes "0 < x"
  shows "round_to_double x =
           of_int (round_half_even (x / 2 powi (max (ilog2 x - 52) (- 1074)))) *
           2 powi (max (ilog2 x - 52) (- 1074))"
  using assms by (simp add: round_to_double_def Let_def)

lemma round_to_double_exact:
  assumes "0 < x" and "x / 2 powi (max (ilog2 x - 52) (- 1074)) = of_int k"
  shows "round_to_double x = x"
proof -
  have "round_to_double x = of_int k * 2 powi (max (ilog2 x - 52) (- 1074))"
    using assms by (simp add: round_to_double_pos_eq)
  also have "\<dots> = x"
    using assms(2) by (simp add: field_simps)
  finally show ?thesis .
qed

lemma ilog2_nonneg:
  assumes "1 \<le> x"
  shows "0 \<le> ilog2 x"
proof -
  have "0 < x" using assms by simp
  from ilog2_bounds(2) [OF this] assms have "(2::rat) powi 0 < 2 powi (ilog2 x + 1)"
    by simp
  then have "0 < ilog2 x + 1"
    by (metis power_int_increasing not_le one_le_numeral)
  then show ?thesis by simp
qed

lemma ilog2_less:
  assumes "0 < x" "x < 2 powi k"
  shows "ilog2 x < k"
proof -
  from ilog2_bounds(1) [OF assms(1)] assms(2) have "(2::rat) powi (ilog2 x) < 2 powi k"
    by simp
  then show ?thesis
    by (metis power_int_increasing not_le one_le_numeral)
qed

lemma round_to_double_of_int_pos:
  assumes "0 < n" "n \<le> 2 ^ 53"
  shows "round_to_double (of_int n) = of_int n"
proof -
  define x :: rat where "x = of_int n"
  have x: "0 < x" "1 \<le> x" "x \<le> 2 ^ 53"
    using assms by (simp_all add: x_def)
  define e where "e = ilog2 x"
  have e0: "0 \<le> e"
    unfolding e_def using x(2) by (rule ilog2_nonneg)
  have "x < 2 powi 54"
    using x(3) by simp
  then have e53: "e \<le> 53"
    using ilog2_less [OF x(1), of 54] by (simp add: e_def)
  have p: "max (e - 52) (- 1074) = e - 52"
    using e0 by simp
  show ?thesis
  proof (cases "e \<le> 52")
    case True
    then have "1 / (2::rat) powi (e - 52) = of_int (2 ^ nat (- (e - 52)))"
      by (intro powi2_neg_eq) simp
    then have "x / 2 powi (e - 52) = of_int (n * 2 ^ nat (- (e - 52)))"
      by (simp add: x_def divide_inverse)
    then show ?thesis
      using round_to_double_exact [OF x(1), of "n * 2 ^ nat (- (e - 52))"] p
      by (simp add: e_def x_def)
  next
    case False
    with e53 have e: "e = 53" by simp
    have "2 powi 53 \<le> x"
      using ilog2_bounds(1) [OF x(1)] by (simp add: e_def [symmetric] e)
    with x(3) have xv: "x = 2 ^ 53" by simp
    have "x / 2 powi (e - 52) = of_int (2 ^ 52)"
      by (simp add: e xv)
    then show ?thesis
      using round_to_double_exact [OF x(1), of "2 ^ 52"] p
      by (simp add: e_def x_def)
  qed
qed

lemma round_to_double_of_int:
  assumes "\<bar>n\<bar> \<le> 2 ^ 53"
  shows "round_to_double (of_int n) = of_int n"
proof -
  consider "n = 0" | "0 < n" | "n < 0" by linarith
  then show ?thesis
  proof cases
    case 1
    then show ?thesis by (simp add: round_to_double_def)
  next
    case 2
    with assms show ?thesis by (simp add: round_to_double_of_int_pos)
  next
    case 3
    with assms have "round_to_double (of_int (- n)) = of_int (- n)"
      by (intro round_to_double_of_int_pos) simp_all
    then show ?thesis
      by (simp add: round_to_double_minus)
  qed
qed

lemma round_to_double_nonneg:
  assumes "0 \<le> x"
  shows "0 \<le> round_to_double x"
proof (cases "x = 0")
  case True
  then show ?thesis by (simp add: round_to_double_def)
next
  case False
  with assms have x: "0 < x" by simp
  define p where "p = max (ilog2 x - 52) (- 1074)"
  have "of_int 0 \<le> x / 2 powi p"
    using x by simp
  then have "0 \<le> round_half_even (x / 2 powi p)"
    by (rule round_half_even_ge)
  then show ?thesis
    by (simp add: round_to_double_pos_eq [OF x] p_def [symmetric])
qed

lemma round_to_double_le_int:
  assumes "0 \<le> x" "x \<le> of_int n" "n \<le> 2 ^ 53"
  shows "round_to_double x \<le> of_int n"
proof (cases "x = 0")
  case True
  with assms show ?thesis by (simp add: round_to_double_def)
next
  case False
  with assms have x: "0 < x" by simp
  define p where "p = max (ilog2 x - 52) (- 1074)"
  show ?thesis
  proof (cases "p \<le> 0")
    case True
    then have inv: "1 / (2::rat) powi p = of_int (2 ^ nat (- p))"
      by (rule powi2_neg_eq)
    have "x / 2 powi p \<le> of_int n / 2 powi p"
      using assms(2) by (simp add: divide_right_mono)
    also have "\<dots> = of_int (n * 2 ^ nat (- p))"
      using inv by (simp add: divide_inverse)
    finally have "round_half_even (x / 2 powi p) \<le> n * 2 ^ nat (- p)"
      by (rule round_half_even_le)
    then have "(of_int (round_half_even (x / 2 powi p)) :: rat) \<le> of_int (n * 2 ^ nat (- p))"
      by (simp only: of_int_le_iff)
    also have "\<dots> = of_int n / 2 powi p"
      using inv by (simp add: divide_inverse)
    finally have "of_int (round_half_even (x / 2 powi p)) * 2 powi p \<le> (of_int n :: rat)"
      by (simp add: pos_le_divide_eq)
    then show ?thesis
      by (simp add: round_to_double_pos_eq [OF x] p_def [symmetric])
  next
    case False
    then have "53 \<le> ilog2 x"
      by (simp add: p_def)
    then have "(2::rat) powi 53 \<le> 2 powi ilog2 x"
      by (intro power_int_increasing) simp_all
    also have "\<dots> \<le> x"
      using x by (rule ilog2_bounds)
    finally have "2 ^ 53 \<le> x" by simp
    moreover have "(of_int n :: rat) \<le> 2 ^ 53"
      using assms(3) by (metis of_int_le_iff of_int_numeral of_int_power)
    ultimately have xn: "x = of_int n" and "\<bar>n\<bar> \<le> 2 ^ 53"
      using assms by simp_all
    then show ?thesis
      by (simp add: round_to_double_of_int)
  qed
qed

lemma floor_round_to_double_div:
  assumes a: "0 < a" "a < 2 ^ 53" and b: "1 \<le> b"
  shows "\<lfloor>round_to_double (of_int a / of_int b)\<rfloor> = a div b"
proof -
  define x :: rat where "x = of_int a / of_int b"
  define n where "n = a div b"
  define e where "e = ilog2 x"
  define p where "p = max (e - 52) (- 1074)"
  define s :: int where "s = 2 ^ nat (- p)"
  define m where "m = round_half_even (x / 2 powi p)"
  have x: "0 < x"
    using a b by (simp add: x_def)
  have n0: "0 \<le> n"
    using a b by (simp add: n_def pos_imp_zdiv_nonneg_iff)
  have "x \<le> of_int a"
    using a b by (simp add: x_def pos_divide_le_eq mult_le_cancel_left1)
  also have "\<dots> < 2 powi 53"
    using a(2) by (metis of_int_less_iff of_int_numeral of_int_power power_int_numeral)
  finally have xlt: "x < 2 powi 53" .
  then have e52: "e \<le> 52"
    using ilog2_less [OF x, of 53] by (simp add: e_def)
  then have p0: "p \<le> 0"
    by (simp add: p_def)
  have s: "0 < s"
    by (simp add: s_def)
  have inv: "1 / (2::rat) powi p = of_int s"
    unfolding s_def using p0 by (rule powi2_neg_eq)
  have xs: "x / 2 powi p = x * of_int s"
    using inv by (simp add: divide_inverse)
  have P: "(2::rat) powi p = 1 / of_int s"
    by (simp add: inv [symmetric])
  have rd: "round_to_double x = of_int m / of_int s"
    unfolding round_to_double_pos_eq [OF x] e_def [symmetric] p_def [symmetric] m_def [symmetric]
    by (simp add: P)
  \<comment> \<open>lower bound\<close>
  have "of_int \<lfloor>(of_int a :: rat) / of_int b\<rfloor> \<le> (of_int a :: rat) / of_int b"
    by (rule of_int_floor_le)
  then have nx: "of_int n \<le> x"
    by (simp only: floor_divide_of_int_eq n_def x_def)
  then have "of_int (n * s) \<le> x * of_int s"
    using s by simp
  then have lo: "n * s \<le> m"
    unfolding m_def xs by (rule round_half_even_ge)
  \<comment> \<open>upper bound\<close>
  have up: "m < (n + 1) * s"
  proof (cases "- 1074 \<le> e - 52")
    case True
    then have pe: "p = e - 52" by (simp add: p_def)
    have "2 powi e \<le> x"
      using ilog2_bounds(1) [OF x] by (simp add: e_def)
    then have "of_int b * 2 powi e \<le> (of_int a :: rat)"
      using b by (simp add: x_def pos_le_divide_eq mult.commute)
    also have "\<dots> < 2 powi 53"
      using a(2) by (metis of_int_less_iff of_int_numeral of_int_power power_int_numeral)
    finally have "of_int b < 2 powi 53 / (2::rat) powi e"
      by (simp add: pos_less_divide_eq)
    also have "\<dots> = 2 * (1 / 2 powi p)"
      by (simp add: pe power_int_diff)
    finally have b2s: "(of_int b :: rat) < 2 * of_int s"
      by (simp only: inv)
    have "a mod b < b"
      using b by simp
    moreover have "a = n * b + a mod b"
      by (simp add: n_def)
    moreover have "(n + 1) * b = n * b + b"
      by (simp add: algebra_simps)
    ultimately have "a + 1 \<le> (n + 1) * b"
      by linarith
    then have "(of_int (a + 1) :: rat) \<le> of_int ((n + 1) * b)"
      by (simp only: of_int_le_iff)
    then have "(of_int a + 1) / of_int b \<le> (of_int (n + 1) :: rat)"
      using b by (simp add: pos_divide_le_eq)
    then have "x + 1 / of_int b \<le> of_int (n + 1)"
      by (simp add: x_def add_divide_distrib)
    then have "(x + 1 / of_int b) * of_int s \<le> of_int (n + 1) * of_int s"
      using s by (intro mult_right_mono) simp_all
    then have "x * of_int s + of_int s / of_int b \<le> of_int ((n + 1) * s)"
      by (simp add: distrib_right)
    moreover have "1 / 2 < (of_int s :: rat) / of_int b"
      using b2s b by (simp add: pos_less_divide_eq)
    ultimately have "x * of_int s < of_int ((n + 1) * s) - 1 / 2"
      by linarith
    then show ?thesis
      unfolding m_def xs by (rule round_half_even_less)
  next
    case False
    then have pe: "p = - 1074" and e: "e + 1 \<le> - 1022"
      by (simp_all add: p_def)
    have "x < 2 powi (e + 1)"
      using ilog2_bounds(2) [OF x] by (simp add: e_def)
    also have "\<dots> \<le> 2 powi (- 1022)"
      using e by (intro power_int_increasing) simp_all
    finally have "x * of_int s \<le> 2 powi (- 1022) * of_int s"
      using s by simp
    also have "\<dots> = of_int (2 ^ 52)"
      by (simp add: s_def pe power_int_minus)
    finally have "m \<le> 2 ^ 52"
      unfolding m_def xs by (rule round_half_even_le)
    also have "\<dots> < s"
      by (simp add: s_def pe)
    also have "\<dots> \<le> (n + 1) * s"
      using n0 s by (simp add: mult_le_cancel_right1)
    finally show ?thesis .
  qed
  have "of_int n \<le> (of_int m :: rat) / of_int s"
    using lo s by (simp add: pos_le_divide_eq) (metis of_int_le_iff of_int_mult)
  moreover have "(of_int m :: rat) / of_int s < of_int n + 1"
    using up s by (simp add: pos_divide_less_eq) (metis of_int_less_iff of_int_mult of_int_add of_int_1)
  ultimately have "\<lfloor>(of_int m :: rat) / of_int s\<rfloor> = n"
    by (simp add: floor_unique)
  then show ?thesis
    by (simp add: rd x_def [symmetric] n_def)
qed

section \<open>The stored batch size\<close>

lemma to_pyfloat_small:
  assumes "\<bar>round_to_double x\<bar> \<le> 2 ^ 53"
  shows "to_pyfloat x = Finite (round_to_double x)"
proof -
  have "(2::rat) ^ 53 < 2 ^ 1024"
    by (rule power_strict_increasing) simp_all
  with assms have "round_to_double x < 2 ^ 1024" "- (2 ^ 1024) < round_to_double x"
    by linarith+
  then show ?thesis
    by (simp add: to_pyfloat_def Let_def)
qed

lemma rat_of_int_le_2_53: "n \<le> 2 ^ 53 \<Longrightarrow> (of_int n :: rat) \<le> 2 ^ 53"
  by (metis of_int_le_iff of_int_numeral of_int_power)

lemma effective_batch_size_single:
  assumes "device_count \<le> 1" "\<bar>n\<bar> \<le> 2 ^ 53"
  shows "effective_batch_size device_count n = Inr n"
proof -
  have r: "round_to_double (of_int n) = of_int n"
    using assms(2) by (rule round_to_double_of_int)
  have "\<bar>of_int n :: rat\<bar> \<le> 2 ^ 53"
    using rat_of_int_le_2_53 [of "\<bar>n\<bar>"] assms(2) by simp
  then have "to_pyfloat (of_int n) = Finite (of_int n)"
    using to_pyfloat_small [of "of_int n"] by (simp add: r)
  then show ?thesis
    using assms(1)
    by (simp add: effective_batch_size_def py_int_truediv_def try_then_def py_int_of_float_def)
qed

lemma truediv_nonneg:
  assumes "0 \<le> a" "a < 2 ^ 53" "1 \<le> b"
  shows "to_pyfloat (of_int a / of_int b) = Finite (round_to_double (of_int a / of_int b))"
    and "0 \<le> round_to_double (of_int a / of_int b)"
    and "\<lfloor>round_to_double (of_int a / of_int b)\<rfloor> = a div b"
    and "round_to_double (of_int a / of_int b) \<le> 2 ^ 53"
proof -
  define x :: rat where "x = of_int a / of_int b"
  have x0: "0 \<le> x"
    using assms by (simp add: x_def)
  have xa: "x \<le> of_int a"
    using assms by (simp add: x_def pos_divide_le_eq mult_le_cancel_left1)
  show nn: "0 \<le> round_to_double (of_int a / of_int b)"
    using x0 unfolding x_def by (rule round_to_double_nonneg)
  have "round_to_double x \<le> of_int a"
    using x0 xa assms(2) by (intro round_to_double_le_int) simp_all
  also have "\<dots> \<le> 2 ^ 53"
    using assms(2) by (intro rat_of_int_le_2_53) simp
  finally show le: "round_to_double (of_int a / of_int b) \<le> 2 ^ 53"
    by (simp add: x_def)
  then have "\<bar>round_to_double x\<bar> \<le> 2 ^ 53"
    using nn by (simp add: x_def)
  then show "to_pyfloat (of_int a / of_int b) = Finite (round_to_double (of_int a / of_int b))"
    unfolding x_def by (rule to_pyfloat_small)
  show "\<lfloor>round_to_double (of_int a / of_int b)\<rfloor> = a div b"
  proof (cases "a = 0")
    case True
    then show ?thesis by (simp add: round_to_double_def)
  next
    case False
    with assms show ?thesis
      by (intro floor_round_to_double_div) simp_all
  qed
qed

lemma effective_batch_size_nonneg:
  assumes "1 < device_count" "0 \<le> n" "n < 2 ^ 53"
  shows "effective_batch_size device_count n = Inr (n div int device_count)"
proof -
  have b: "1 \<le> int device_count"
    using assms(1) by simp
  note t = truediv_nonneg [OF assms(2,3) b]
  show ?thesis
    using assms(1) t
    by (simp add: effective_batch_size_def py_int_truediv_def try_then_def py_int_of_float_def)
qed

lemma effective_batch_size_neg:
  assumes "1 < device_count" "n < 0" "- (2 ^ 53) < n"
  shows "effective_batch_size device_count n = Inr (- ((- n) div int device_count))"
proof -
  have b: "1 \<le> int device_count"
    using assms(1) by simp
  have a: "0 \<le> - n" "- n < 2 ^ 53"
    using assms by simp_all
  note t = truediv_nonneg [OF a b]
  define r where "r = round_to_double (of_int (- n) / of_int (int device_count))"
  have neg: "round_to_double (of_int n / of_int (int device_count)) = - r"
    unfolding r_def by (simp add: round_to_double_minus [symmetric])
  have r0: "0 \<le> r" and fl: "\<lfloor>r\<rfloor> = (- n) div int device_count"
    using t by (simp_all add: r_def)
  have "r \<le> 2 ^ 53"
    using t(4) by (simp add: r_def)
  then have "\<bar>- r\<bar> \<le> 2 ^ 53"
    using r0 by simp
  then have tp: "to_pyfloat (of_int n / of_int (int device_count)) = Finite (- r)"
    using to_pyfloat_small [of "of_int n / of_int (int device_count)"] unfolding neg by blast
  have "(if 0 \<le> - r then \<lfloor>- r\<rfloor> else \<lceil>- r\<rceil>) = - \<lfloor>r\<rfloor>"
    using r0 by (auto simp: ceiling_def)
  then show ?thesis
    using assms(1) tp fl
    by (simp add: effective_batch_size_def py_int_truediv_def try_then_def py_int_of_float_def)
qed

lemma init_batch_size:
  assumes "init dc nm sz ch dir n w pm pw sp dl = Inr dm"
  shows "effective_batch_size dc n = Inr (batch_size dm)"
  using assms
  by (auto simp: init_def try_then_def Let_def split: sum.splits)

text \<open>
  C10 (as amended). The batch size that the constructor stores is
  \<open>effective_batch_size device_count batch_size\<close>. With at most one device it is
  \<open>batch_size\<close> itself whenever \<open>\<bar>batch_size\<bar> \<le> 2\<^sup>5\<^sup>3\<close>. With more than one device and
  \<open>\<bar>batch_size\<bar> < 2\<^sup>5\<^sup>3\<close> it is the quotient truncated towards zero, which for a
  positive \<open>batch_size\<close> is \<open>batch_size div device_count\<close>. In these ranges the
  computation does not raise.
\<close>

theorem stored_batch_size_below_2_53:
  "(device_count \<le> 1 \<and> \<bar>n\<bar> \<le> 2 ^ 53 \<longrightarrow> effective_batch_size device_count n = Inr n) \<and>
   (1 < device_count \<and> \<bar>n\<bar> < 2 ^ 53 \<longrightarrow>
      effective_batch_size device_count n = Inr (sgn n * (\<bar>n\<bar> div int device_count))) \<and>
   (1 < device_count \<and> 0 < n \<and> n < 2 ^ 53 \<longrightarrow>
      effective_batch_size device_count n = Inr (n div int device_count)) \<and>
   (init device_count nm sz ch dir n w pm pw sp dl = Inr dm \<longrightarrow>
      effective_batch_size device_count n = Inr (batch_size dm))"
proof (intro conjI impI)
  assume "device_count \<le> 1 \<and> \<bar>n\<bar> \<le> 2 ^ 53"
  then show "effective_batch_size device_count n = Inr n"
    by (simp add: effective_batch_size_single)
next
  assume h: "1 < device_count \<and> \<bar>n\<bar> < 2 ^ 53"
  show "effective_batch_size device_count n = Inr (sgn n * (\<bar>n\<bar> div int device_count))"
  proof (cases "0 \<le> n")
    case True
    with h have "effective_batch_size device_count n = Inr (n div int device_count)"
      by (intro effective_batch_size_nonneg) simp_all
    with True show ?thesis
      by (cases "n = 0") simp_all
  next
    case False
    with h have "effective_batch_size device_count n = Inr (- ((- n) div int device_count))"
      by (intro effective_batch_size_neg) simp_all
    with False show ?thesis by simp
  qed
next
  assume "1 < device_count \<and> 0 < n \<and> n < 2 ^ 53"
  then show "effective_batch_size device_count n = Inr (n div int device_count)"
    by (intro effective_batch_size_nonneg) simp_all
next
  assume "init device_count nm sz ch dir n w pm pw sp dl = Inr dm"
  then show "effective_batch_size device_count n = Inr (batch_size dm)"
    by (rule init_batch_size)
qed

lemma round_to_double_2_53_1: "round_to_double 9007199254740993 = 9007199254740992"
  by (subst round_to_double_nonneg_low [where e = 53])
    (simp_all add: round_half_even_def Let_def floor_rat_numeral_div)

lemma round_to_double_half_2_53_3:
  "round_to_double (9007199254740995 / 2) = 4503599627370498"
  by (subst round_to_double_nonneg_low [where e = 52])
    (simp_all add: round_half_even_def Let_def floor_rat_numeral_div)

section \<open>The constructor\<close>

lemma sanity_check_iff:
  "sanity_check self =
     (if img_channels self = spec_required_channels (name self) then Inr () else Inl AssertionError)"
  by (simp add: sanity_check_def spec_required_channels_def)

lemma init_unfold:
  assumes "effective_batch_size dc bs = Inr b"
  shows "init dc nm sz ch dir bs w pm pw sp dl =
     (if ch = spec_required_channels nm
      then Inr \<lparr> name = nm, data_dir = dir, img_size = sz, img_channels = ch,
                 batch_size = b, num_workers = w, pin_memory = pm,
                 persistent_workers = pw, train_val_split = sp,
                 download = dl, transforms = build_transforms sz ch,
                 train_dataset = None, val_dataset = None, test_dataset = None \<rparr>
      else Inl AssertionError)"
  using assms
  by (simp add: init_def try_then_def Let_def sanity_check_iff)

lemma init_raises:
  assumes "effective_batch_size dc bs = Inl e"
  shows "init dc nm sz ch dir bs w pm pw sp dl = Inl e"
  using assms by (simp add: init_def try_then_def)

lemma effective_batch_size_errors:
  assumes "effective_batch_size dc bs = Inl e"
  shows "e = OverflowError"
  using assms
  by (auto simp: effective_batch_size_def py_int_truediv_def try_then_def py_int_of_float_def
      split: if_splits pyfloat.splits sum.splits)

lemma init_Inr:
  assumes "init dc nm sz ch dir bs w pm pw sp dl = Inr dm"
  shows "\<exists>b. effective_batch_size dc bs = Inr b \<and> ch = spec_required_channels nm \<and>
     dm = \<lparr> name = nm, data_dir = dir, img_size = sz, img_channels = ch,
                 batch_size = b, num_workers = w, pin_memory = pm,
                 persistent_workers = pw, train_val_split = sp,
                 download = dl, transforms = build_transforms sz ch,
                 train_dataset = None, val_dataset = None, test_dataset = None \<rparr>"
proof (cases "effective_batch_size dc bs")
  case (Inl e)
  with assms show ?thesis by (simp add: init_raises)
next
  case (Inr b)
  with assms show ?thesis
    by (simp add: init_unfold split: if_splits)
qed

theorem stored_batch_size_below_2_53_witness:
  "effective_batch_size 1 32 = Inr 32 \<and>
   effective_batch_size 0 (- 32) = Inr (- 32) \<and>
   effective_batch_size 4 30 = Inr 7 \<and>
   effective_batch_size 4 (- 30) = Inr (- 7) \<and>
   batch_size (projr (init 4 ''MNIST'' 28 1 (Path [''data'']) 30 0 True True (Finite (1 / 2)) True)) = 7"
proof -
  have a: "effective_batch_size 1 32 = Inr 32"
    using stored_batch_size_below_2_53 [of 1 32] by simp
  have b: "effective_batch_size 0 (- 32) = Inr (- 32)"
    using stored_batch_size_below_2_53 [of 0 "- 32"] by simp
  have c: "effective_batch_size 4 30 = Inr 7"
    using stored_batch_size_below_2_53 [of 4 30] by simp
  have d: "effective_batch_size 4 (- 30) = Inr (- 7)"
    using stored_batch_size_below_2_53 [of 4 "- 30"] by simp
  have "init 4 ''MNIST'' 28 1 (Path [''data'']) 30 0 True True (Finite (1 / 2)) True
      = Inr (projr (init 4 ''MNIST'' 28 1 (Path [''data'']) 30 0 True True (Finite (1 / 2)) True))"
    by (simp add: init_unfold [OF c] spec_required_channels_def)
  with stored_batch_size_below_2_53 [of 4 30 "''MNIST''" 28 1 "Path [''data'']" 0 True True "Finite (1 / 2)" True
      "projr (init 4 ''MNIST'' 28 1 (Path [''data'']) 30 0 True True (Finite (1 / 2)) True)"] c
  have "batch_size (projr (init 4 ''MNIST'' 28 1 (Path [''data'']) 30 0 True True (Finite (1 / 2)) True)) = 7"
    by simp
  with a b c d show ?thesis by simp
qed

text \<open>
  Beyond \<open>2\<^sup>5\<^sup>3\<close> the quotient is rounded to a double before it is truncated: with one
  device \<open>2\<^sup>5\<^sup>3 + 1\<close> is stored as \<open>2\<^sup>5\<^sup>3\<close>, and with two devices \<open>2\<^sup>5\<^sup>3 + 3\<close> is stored
  as \<open>2\<^sup>5\<^sup>2 + 2\<close>, one more than \<open>(2\<^sup>5\<^sup>3 + 3) div 2\<close>.
\<close>

theorem stored_batch_size_rounding_counterexample:
  "effective_batch_size 1 (2 ^ 53 + 1) = Inr (2 ^ 53) \<and>
   effective_batch_size 2 (2 ^ 53 + 3) = Inr (2 ^ 52 + 2) \<and>
   ((2 ^ 53 + 3) div 2 :: int) = 2 ^ 52 + 1"
  by (simp add: effective_batch_size_def py_int_truediv_def try_then_def py_int_of_float_def
      to_pyfloat_def round_to_double_2_53_1 round_to_double_half_2_53_3)

text \<open>
  C1 (as amended). \<^verbatim>\<open>sanity_check\<close> raises \<^verbatim>\<open>AssertionError\<close> exactly when
  \<open>img_channels\<close> differs from the number that the dataset name requires, and returns
  otherwise. Whenever the batch size computation of the constructor does not raise,
  the constructor raises \<^verbatim>\<open>AssertionError\<close> exactly when \<open>img_channels\<close> differs from
  that number, and completes when it matches. The only other exception of the
  constructor is the \<^verbatim>\<open>OverflowError\<close> of the batch size computation, which does not
  occur for \<open>\<bar>batch_size\<bar> < 2\<^sup>5\<^sup>3\<close>.
\<close>

theorem constructor_validates_channels:
  "sanity_check self =
     (if img_channels self = spec_required_channels (name self) then Inr () else Inl AssertionError) \<and>
   (effective_batch_size dc bs = Inr b \<longrightarrow>
      (init dc nm sz ch dir bs w pm pw sp dl = Inl AssertionError \<longleftrightarrow>
         ch \<noteq> spec_required_channels nm) \<and>
      (ch = spec_required_channels nm \<longrightarrow>
         (\<exists>dm. init dc nm sz ch dir bs w pm pw sp dl = Inr dm))) \<and>
   (init dc nm sz ch dir bs w pm pw sp dl = Inl e \<longrightarrow> e = AssertionError \<or> e = OverflowError) \<and>
   (\<bar>bs\<bar> < 2 ^ 53 \<longrightarrow> (\<exists>b. effective_batch_size dc bs = Inr b))"
proof (intro conjI impI)
  show "sanity_check self =
     (if img_channels self = spec_required_channels (name self) then Inr () else Inl AssertionError)"
    by (rule sanity_check_iff)
next
  assume "effective_batch_size dc bs = Inr b"
  then show "init dc nm sz ch dir bs w pm pw sp dl = Inl AssertionError \<longleftrightarrow>
         ch \<noteq> spec_required_channels nm"
    by (simp add: init_unfold)
next
  assume "effective_batch_size dc bs = Inr b" "ch = spec_required_channels nm"
  then show "\<exists>dm. init dc nm sz ch dir bs w pm pw sp dl = Inr dm"
    by (simp add: init_unfold)
next
  assume i: "init dc nm sz ch dir bs w pm pw sp dl = Inl e"
  show "e = AssertionError \<or> e = OverflowError"
  proof (cases "effective_batch_size dc bs")
    case (Inl e')
    with i show ?thesis
      using effective_batch_size_errors [of dc bs e'] by (simp add: init_raises)
  next
    case (Inr b)
    with i show ?thesis
      by (simp add: init_unfold split: if_splits)
  qed
next
  assume "\<bar>bs\<bar> < 2 ^ 53"
  then show "\<exists>b. effective_batch_size dc bs = Inr b"
    using effective_batch_size_single [of dc bs] effective_batch_size_nonneg [of dc bs]
      effective_batch_size_neg [of dc bs]
    by (cases "dc \<le> 1"; cases "0 \<le> bs") auto
qed

lemma round_to_double_2_1024:
  "round_to_double (2 ^ 1024) = 2 ^ 1024"
  by (subst round_to_double_nonneg_low [where e = 1024])
    (simp_all add: round_half_even_def Let_def floor_rat_numeral_div)

lemma effective_batch_size_2_1024: "effective_batch_size 1 (2 ^ 1024) = Inl OverflowError"
proof -
  have "to_pyfloat (2 ^ 1024) = PosInf"
    by (simp only: to_pyfloat_def round_to_double_2_1024 Let_def) simp
  then have "to_pyfloat (of_int (2 ^ 1024) / of_int 1) = PosInf"
    by simp
  then show ?thesis
    unfolding effective_batch_size_def py_int_truediv_def try_then_def
    by (simp del: of_int_power of_int_numeral)
qed

text \<open>
  A batch size of \<open>2\<^sup>1\<^sup>0\<^sup>2\<^sup>4\<close> does not fit a double: the division on line 52 raises
  \<^verbatim>\<open>OverflowError\<close> before \<^verbatim>\<open>sanity_check\<close> runs, whether \<open>img_channels\<close> matches or not.
\<close>

theorem constructor_overflow_counterexample:
  "spec_required_channels ''MNIST'' = 1 \<and>
   init 1 ''MNIST'' 28 1 (Path [''data'']) (2 ^ 1024) 0 True True (Finite (1 / 2)) True
     = Inl OverflowError \<and>
   init 1 ''MNIST'' 28 3 (Path [''data'']) (2 ^ 1024) 0 True True (Finite (1 / 2)) True
     = Inl OverflowError"
proof (intro conjI)
  show "spec_required_channels ''MNIST'' = 1"
    by (simp add: spec_required_channels_def)
qed (rule init_raises [OF effective_batch_size_2_1024])+

theorem constructor_validates_channels_witness:
  "effective_batch_size 1 32 = Inr 32 \<and>
   init 1 ''MNIST'' 28 3 (Path [''data'']) 32 0 True True (Finite (1 / 2)) True = Inl AssertionError \<and>
   init 1 ''SEN12MSCR'' 28 3 (Path [''data'']) 32 0 True True (Finite (1 / 2)) True = Inl AssertionError \<and>
   init 1 ''CelebA'' 28 1 (Path [''data'']) 32 0 True True (Finite (1 / 2)) True = Inl AssertionError \<and>
   (\<exists>dm. init 1 ''MNIST'' 28 1 (Path [''data'']) 32 0 True True (Finite (1 / 2)) True = Inr dm) \<and>
   (\<exists>dm. init 1 ''SEN12MSCR'' 28 2 (Path [''data'']) 32 0 True True (Finite (1 / 2)) True = Inr dm) \<and>
   (\<exists>dm. init 1 ''CelebA'' 28 3 (Path [''data'']) 32 0 True True (Finite (1 / 2)) True = Inr dm)"
proof -
  have e: "effective_batch_size 1 32 = Inr 32"
    by (rule effective_batch_size_single) simp_all
  note t = constructor_validates_channels [of _ 1 32 32, THEN conjunct2, THEN conjunct1, rule_format, OF e]
  show ?thesis
    using e t [of "''MNIST''" 28 3] t [of "''SEN12MSCR''" 28 3] t [of "''CelebA''" 28 1]
      t [of "''MNIST''" 28 1] t [of "''SEN12MSCR''" 28 2] t [of "''CelebA''" 28 3]
    by (simp add: spec_required_channels_def)
qed

lemma build_transforms_train:
  "build_transforms sz ch ''train'' = Some (Compose
        [ToTensor,
         Normalize (replicate (nat ch) (1 / 2)) (replicate (nat ch) (1 / 2)),
         CenterCropMinXY,
         Resize sz True,
         RandomHorizontalFlip (1 / 2)])"
  by (simp add: build_transforms_def)

lemma build_transforms_val:
  "build_transforms sz ch ''val'' = Some (Compose
        [ToTensor,
         Normalize (replicate (nat ch) (1 / 2)) (replicate (nat ch) (1 / 2)),
         CenterCropMinXY,
         Resize sz True])"
  by (simp add: build_transforms_def)

lemma build_transforms_test:
  "build_transforms sz ch ''test'' = Some (Compose
        [ToTensor,
         Normalize (replicate (nat ch) (1 / 2)) (replicate (nat ch) (1 / 2)),
         CenterCropMinXY,
         Resize sz True])"
  by (simp add: build_transforms_def)

lemma build_transforms_dom: "dom (build_transforms sz ch) = {''train'', ''val'', ''test''}"
  by (auto simp: build_transforms_def)

lemma init_transforms:
  assumes "init dc nm sz ch dir bs w pm pw sp dl = Inr dm"
  shows "transforms dm = build_transforms sz ch"
  using init_Inr [OF assms] by auto

section \<open>The transforms\<close>

text \<open>
  For every dataset name with which the constructor completes, the dictionary of
  transforms is the same: under \<^verbatim>\<open>"train"\<close> the chain \<^verbatim>\<open>ToTensor\<close>, \<^verbatim>\<open>Normalize\<close>,
  \<^verbatim>\<open>CenterCropMinXY\<close>, \<^verbatim>\<open>Resize(img_size)\<close>, \<^verbatim>\<open>RandomHorizontalFlip(0.5)\<close>, and under
  \<^verbatim>\<open>"val"\<close> and \<^verbatim>\<open>"test"\<close> this chain without its last step.
\<close>

lemma transforms_fixed_chain:
  assumes "init dc nm sz ch dir bs w pm pw sp dl = Inr dm"
  shows "transforms dm ''train'' = Some (Compose
           [ToTensor,
            Normalize (replicate (nat ch) (1 / 2)) (replicate (nat ch) (1 / 2)),
            CenterCropMinXY,
            Resize sz True,
            RandomHorizontalFlip (1 / 2)]) \<and>
         transforms dm ''val'' = Some (Compose
           [ToTensor,
            Normalize (replicate (nat ch) (1 / 2)) (replicate (nat ch) (1 / 2)),
            CenterCropMinXY,
            Resize sz True]) \<and>
         transforms dm ''test'' = transforms dm ''val'' \<and>
         map_option chain (transforms dm ''val'') =
           map_option (butlast \<circ> chain) (transforms dm ''train'') \<and>
         dom (transforms dm) = {''train'', ''val'', ''test''}"
  unfolding init_transforms [OF assms]
  by (simp add: build_transforms_train build_transforms_val build_transforms_test
      build_transforms_dom)

lemma normalization_of_init:
  assumes "init dc nm sz ch dir bs w pm pw sp dl = Inr dm"
  shows "normalization_of dm k =
     (if k \<in> {''train'', ''val'', ''test''}
      then [Normalize (replicate (nat ch) (1 / 2)) (replicate (nat ch) (1 / 2))] else [])"
  unfolding normalization_of_def init_transforms [OF assms]
  by (simp add: build_transforms_def)

text \<open>
  C5 (as amended). The normalization under each of the three keys is
  \<^verbatim>\<open>Normalize([0.5] * img_channels, [0.5] * img_channels)\<close>: it is determined by the
  number of channels alone, so two modules with the same number of channels normalize
  alike, whatever their dataset names.
\<close>

theorem normalization_by_channels_only:
  assumes "init dc nm sz ch dir bs w pm pw sp dl = Inr dm"
  shows "normalization_of dm k =
           (if k \<in> {''train'', ''val'', ''test''}
            then [Normalize (replicate (nat ch) (1 / 2)) (replicate (nat ch) (1 / 2))] else []) \<and>
         (init dc' nm' sz' ch dir' bs' w' pm' pw' sp' dl' = Inr dm' \<longrightarrow>
            normalization_of dm' k = normalization_of dm k)"
  using normalization_of_init [OF assms] normalization_of_init [of dc' nm' sz' ch dir' bs' w' pm' pw' sp' dl' dm' k]
  by simp

lemma init_succeeds:
  assumes "effective_batch_size dc bs = Inr b" "ch = spec_required_channels nm"
  shows "init dc nm sz ch dir bs w pm pw sp dl =
           Inr (projr (init dc nm sz ch dir bs w pm pw sp dl))"
  using assms by (simp add: init_unfold)

lemma effective_batch_size_32: "effective_batch_size 0 32 = Inr 32"
  by (rule effective_batch_size_single) simp_all

lemma init_LSUN_example:
  "init 0 ''LSUN'' 64 3 (Path [''data'']) 32 0 True True (Finite (1 / 2)) True =
     Inr (projr (init 0 ''LSUN'' 64 3 (Path [''data'']) 32 0 True True (Finite (1 / 2)) True))"
  by (rule init_succeeds [OF effective_batch_size_32]) (simp add: spec_required_channels_def)

lemma init_CelebA_example:
  "init 0 ''CelebA'' 64 3 (Path [''data'']) 32 0 True True (Finite (1 / 2)) True =
     Inr (projr (init 0 ''CelebA'' 64 3 (Path [''data'']) 32 0 True True (Finite (1 / 2)) True))"
  by (rule init_succeeds [OF effective_batch_size_32]) (simp add: spec_required_channels_def)

lemma init_Flowers102_example:
  "init 0 ''Flowers102'' 64 3 (Path [''data'']) 32 0 True True (Finite (1 / 2)) True =
     Inr (projr (init 0 ''Flowers102'' 64 3 (Path [''data'']) 32 0 True True (Finite (1 / 2)) True))"
  by (rule init_succeeds [OF effective_batch_size_32]) (simp add: spec_required_channels_def)

text \<open>
  LSUN, CelebA and Flowers102, three different datasets with three channels, get the
  very same normalization.
\<close>

theorem normalization_not_dataset_specific_counterexample:
  "''LSUN'' \<noteq> ''CelebA'' \<and> ''CelebA'' \<noteq> ''Flowers102'' \<and>
   \<not> isl (init 0 ''LSUN'' 64 3 (Path [''data'']) 32 0 True True (Finite (1 / 2)) True) \<and>
   \<not> isl (init 0 ''CelebA'' 64 3 (Path [''data'']) 32 0 True True (Finite (1 / 2)) True) \<and>
   \<not> isl (init 0 ''Flowers102'' 64 3 (Path [''data'']) 32 0 True True (Finite (1 / 2)) True) \<and>
   normalization_of
     (projr (init 0 ''LSUN'' 64 3 (Path [''data'']) 32 0 True True (Finite (1 / 2)) True)) ''train''
     = [Normalize [1 / 2, 1 / 2, 1 / 2] [1 / 2, 1 / 2, 1 / 2]] \<and>
   normalization_of
     (projr (init 0 ''CelebA'' 64 3 (Path [''data'']) 32 0 True True (Finite (1 / 2)) True)) ''train''
     = [Normalize [1 / 2, 1 / 2, 1 / 2] [1 / 2, 1 / 2, 1 / 2]] \<and>
   normalization_of
     (projr (init 0 ''Flowers102'' 64 3 (Path [''data'']) 32 0 True True (Finite (1 / 2)) True)) ''train''
     = [Normalize [1 / 2, 1 / 2, 1 / 2] [1 / 2, 1 / 2, 1 / 2]]"
proof -
  have r: "replicate 3 (1 / 2 :: rat) = [1 / 2, 1 / 2, 1 / 2]"
    by (simp add: numeral_eq_Suc)
  have "\<not> isl (init 0 ''LSUN'' 64 3 (Path [''data'']) 32 0 True True (Finite (1 / 2)) True)"
    by (subst init_LSUN_example) simp
  moreover have "\<not> isl (init 0 ''CelebA'' 64 3 (Path [''data'']) 32 0 True True (Finite (1 / 2)) True)"
    by (subst init_CelebA_example) simp
  moreover have "\<not> isl (init 0 ''Flowers102'' 64 3 (Path [''data'']) 32 0 True True (Finite (1 / 2)) True)"
    by (subst init_Flowers102_example) simp
  ultimately show ?thesis
    using normalization_of_init [OF init_LSUN_example, of "''train''"]
      normalization_of_init [OF init_CelebA_example, of "''train''"]
      normalization_of_init [OF init_Flowers102_example, of "''train''"]
    by (simp add: r)
qed

theorem normalization_by_channels_only_witness:
  "normalization_of
     (projr (init 0 ''LSUN'' 64 3 (Path [''data'']) 32 0 True True (Finite (1 / 2)) True)) ''val''
     = [Normalize (replicate (nat 3) (1 / 2)) (replicate (nat 3) (1 / 2))] \<and>
   normalization_of
     (projr (init 0 ''CelebA'' 64 3 (Path [''data'']) 32 0 True True (Finite (1 / 2)) True)) ''val''
     = normalization_of
     (projr (init 0 ''LSUN'' 64 3 (Path [''data'']) 32 0 True True (Finite (1 / 2)) True)) ''val''"
  using normalization_by_channels_only [OF init_LSUN_example, of "''val''" 0 "''CelebA''" 64
      "Path [''data'']" 32 0 True True "Finite (1 / 2)" True
      "projr (init 0 ''CelebA'' 64 3 (Path [''data'']) 32 0 True True (Finite (1 / 2)) True)"]
    init_CelebA_example
  by simp

section \<open>The data loaders\<close>

text \<open>
  C7 (as amended). Each of the three methods calls \<^verbatim>\<open>DataLoader\<close> on the dataset of its
  role with the module's \<open>batch_size\<close>, \<open>num_workers\<close>, \<open>pin_memory\<close> and
  \<open>persistent_workers\<close>; only \<^verbatim>\<open>train_dataloader\<close> passes \<^verbatim>\<open>shuffle=True\<close>, the other two
  leave \<^verbatim>\<open>shuffle\<close> out, so that torch iterates in the order of the dataset. The loader
  is returned whenever the stored batch size is positive, \<open>num_workers\<close> is not
  negative and is positive with persistent workers, and, for the training loader, the
  dataset is not empty. A stored batch size that is not positive, a negative
  \<open>num_workers\<close> or an empty training set makes the call raise \<^verbatim>\<open>ValueError\<close>.
\<close>

theorem dataloaders_configuration:
  "(settings_accepted self \<and> train_dataset self = Some tr \<and> 0 < n \<longrightarrow>
      train_dataloader n self =
        Inr \<lparr> dl_dataset = tr, dl_batch_size = batch_size self,
              dl_num_workers = num_workers self, dl_pin_memory = pin_memory self,
              dl_persistent_workers = persistent_workers self, dl_shuffle = Some True \<rparr>) \<and>
   (settings_accepted self \<and> val_dataset self = Some va \<longrightarrow>
      val_dataloader n self =
        Inr \<lparr> dl_dataset = va, dl_batch_size = batch_size self,
              dl_num_workers = num_workers self, dl_pin_memory = pin_memory self,
              dl_persistent_workers = persistent_workers self, dl_shuffle = None \<rparr>) \<and>
   (settings_accepted self \<and> test_dataset self = Some te \<longrightarrow>
      test_dataloader n self =
        Inr \<lparr> dl_dataset = te, dl_batch_size = batch_size self,
              dl_num_workers = num_workers self, dl_pin_memory = pin_memory self,
              dl_persistent_workers = persistent_workers self, dl_shuffle = None \<rparr>) \<and>
   (train_dataset self = Some tr \<and> (batch_size self \<le> 0 \<or> num_workers self < 0 \<or> n = 0) \<longrightarrow>
      train_dataloader n self = Inl ValueError) \<and>
   (val_dataset self = Some va \<and> (batch_size self \<le> 0 \<or> num_workers self < 0) \<longrightarrow>
      val_dataloader n self = Inl ValueError) \<and>
   (test_dataset self = Some te \<and> (batch_size self \<le> 0 \<or> num_workers self < 0) \<longrightarrow>
      test_dataloader n self = Inl ValueError)"
proof (intro conjI impI)
  assume "settings_accepted self \<and> train_dataset self = Some tr \<and> 0 < n"
  then show "train_dataloader n self =
        Inr \<lparr> dl_dataset = tr, dl_batch_size = batch_size self,
              dl_num_workers = num_workers self, dl_pin_memory = pin_memory self,
              dl_persistent_workers = persistent_workers self, dl_shuffle = Some True \<rparr>"
    by (auto simp: train_dataloader_def getattr_def try_then_def DataLoader_init_def
        settings_accepted_def)
next
  assume "settings_accepted self \<and> val_dataset self = Some va"
  then show "val_dataloader n self =
        Inr \<lparr> dl_dataset = va, dl_batch_size = batch_size self,
              dl_num_workers = num_workers self, dl_pin_memory = pin_memory self,
              dl_persistent_workers = persistent_workers self, dl_shuffle = None \<rparr>"
    by (auto simp: val_dataloader_def getattr_def try_then_def DataLoader_init_def
        settings_accepted_def)
next
  assume "settings_accepted self \<and> test_dataset self = Some te"
  then show "test_dataloader n self =
        Inr \<lparr> dl_dataset = te, dl_batch_size = batch_size self,
              dl_num_workers = num_workers self, dl_pin_memory = pin_memory self,
              dl_persistent_workers = persistent_workers self, dl_shuffle = None \<rparr>"
    by (auto simp: test_dataloader_def getattr_def try_then_def DataLoader_init_def
        settings_accepted_def)
next
  assume "train_dataset self = Some tr \<and>
    (batch_size self \<le> 0 \<or> num_workers self < 0 \<or> n = 0)"
  then show "train_dataloader n self = Inl ValueError"
    by (auto simp: train_dataloader_def getattr_def try_then_def DataLoader_init_def)
next
  assume "val_dataset self = Some va \<and> (batch_size self \<le> 0 \<or> num_workers self < 0)"
  then show "val_dataloader n self = Inl ValueError"
    by (auto simp: val_dataloader_def getattr_def try_then_def DataLoader_init_def)
next
  assume "test_dataset self = Some te \<and> (batch_size self \<le> 0 \<or> num_workers self < 0)"
  then show "test_dataloader n self = Inl ValueError"
    by (auto simp: test_dataloader_def getattr_def try_then_def DataLoader_init_def)
qed

text \<open>
  With \<open>num_workers = 0\<close> and persistent workers, which are the defaults of the
  constructor, torch rejects each of the three calls.
\<close>

lemma dataloaders_persistent_without_workers:
  assumes "num_workers self = 0" "persistent_workers self"
  shows "train_dataset self = Some tr \<Longrightarrow> train_dataloader n self = Inl ValueError"
    and "val_dataset self = Some va \<Longrightarrow> val_dataloader n self = Inl ValueError"
    and "test_dataset self = Some te \<Longrightarrow> test_dataloader n self = Inl ValueError"
  using assms
  by (simp_all add: train_dataloader_def val_dataloader_def test_dataloader_def getattr_def
      try_then_def DataLoader_init_def)

theorem dataloaders_configuration_witness:
  "train_dataloader 162770
     \<lparr> name = ''CelebA'', data_dir = Path [''data''], img_size = 64, img_channels = 3,
       batch_size = 32, num_workers = 4, pin_memory = True, persistent_workers = True,
       train_val_split = Finite (1 / 2), download = True, transforms = Map.empty,
       train_dataset = Some (CelebA (Path [''data'']) ''train'' ''attr'' None None),
       val_dataset = Some (CelebA (Path [''data'']) ''valid'' ''attr'' None None),
       test_dataset = Some (CelebA (Path [''data'']) ''test'' ''attr'' None None) \<rparr> =
     Inr \<lparr> dl_dataset = CelebA (Path [''data'']) ''train'' ''attr'' None None,
           dl_batch_size = 32, dl_num_workers = 4, dl_pin_memory = True,
           dl_persistent_workers = True, dl_shuffle = Some True \<rparr> \<and>
   val_dataloader 19867
     \<lparr> name = ''CelebA'', data_dir = Path [''data''], img_size = 64, img_channels = 3,
       batch_size = 32, num_workers = 0, pin_memory = True, persistent_workers = False,
       train_val_split = Finite (1 / 2), download = True, transforms = Map.empty,
       train_dataset = Some (CelebA (Path [''data'']) ''train'' ''attr'' None None),
       val_dataset = Some (CelebA (Path [''data'']) ''valid'' ''attr'' None None),
       test_dataset = Some (CelebA (Path [''data'']) ''test'' ''attr'' None None) \<rparr> =
     Inr \<lparr> dl_dataset = CelebA (Path [''data'']) ''valid'' ''attr'' None None,
           dl_batch_size = 32, dl_num_workers = 0, dl_pin_memory = True,
           dl_persistent_workers = False, dl_shuffle = None \<rparr> \<and>
   test_dataloader 19962
     \<lparr> name = ''CelebA'', data_dir = Path [''data''], img_size = 64, img_channels = 3,
       batch_size = 32, num_workers = 4, pin_memory = True, persistent_workers = True,
       train_val_split = Finite (1 / 2), download = True, transforms = Map.empty,
       train_dataset = Some (CelebA (Path [''data'']) ''train'' ''attr'' None None),
       val_dataset = Some (CelebA (Path [''data'']) ''valid'' ''attr'' None None),
       test_dataset = Some (CelebA (Path [''data'']) ''test'' ''attr'' None None) \<rparr> =
     Inr \<lparr> dl_dataset = CelebA (Path [''data'']) ''test'' ''attr'' None None,
           dl_batch_size = 32, dl_num_workers = 4, dl_pin_memory = True,
           dl_persistent_workers = True, dl_shuffle = None \<rparr> \<and>
   train_dataloader 162770
     \<lparr> name = ''CelebA'', data_dir = Path [''data''], img_size = 64, img_channels = 3,
       batch_size = 0, num_workers = 4, pin_memory = True, persistent_workers = True,
       train_val_split = Finite (1 / 2), download = True, transforms = Map.empty,
       train_dataset = Some (CelebA (Path [''data'']) ''train'' ''attr'' None None),
       val_dataset = Some (CelebA (Path [''data'']) ''valid'' ''attr'' None None),
       test_dataset = Some (CelebA (Path [''data'']) ''test'' ''attr'' None None) \<rparr> =
     Inl ValueError \<and>
   train_dataloader 0
     \<lparr> name = ''CelebA'', data_dir = Path [''data''], img_size = 64, img_channels = 3,
       batch_size = 32, num_workers = 4, pin_memory = True, persistent_workers = True,
       train_val_split = Finite (1 / 2), download = True, transforms = Map.empty,
       train_dataset = Some (CelebA (Path [''data'']) ''train'' ''attr'' None None),
       val_dataset = Some (CelebA (Path [''data'']) ''valid'' ''attr'' None None),
       test_dataset = Some (CelebA (Path [''data'']) ''test'' ''attr'' None None) \<rparr> =
     Inl ValueError \<and>
   test_dataloader 19962
     \<lparr> name = ''CelebA'', data_dir = Path [''data''], img_size = 64, img_channels = 3,
       batch_size = 32, num_workers = - 1, pin_memory = True, persistent_workers = False,
       train_val_split = Finite (1 / 2), download = True, transforms = Map.empty,
       train_dataset = Some (CelebA (Path [''data'']) ''train'' ''attr'' None None),
       val_dataset = Some (CelebA (Path [''data'']) ''valid'' ''attr'' None None),
       test_dataset = Some (CelebA (Path [''data'']) ''test'' ''attr'' None None) \<rparr> =
     Inl ValueError"
proof -
  let ?tr = "CelebA (Path [''data'']) ''train'' ''attr'' None None"
  let ?va = "CelebA (Path [''data'']) ''valid'' ''attr'' None None"
  let ?te = "CelebA (Path [''data'']) ''test'' ''attr'' None None"
  let ?m = "\<lambda>b w p. \<lparr> name = ''CelebA'', data_dir = Path [''data''], img_size = 64,
       img_channels = 3, batch_size = b, num_workers = w, pin_memory = True,
       persistent_workers = p, train_val_split = Finite (1 / 2), download = True,
       transforms = Map.empty, train_dataset = Some ?tr, val_dataset = Some ?va,
       test_dataset = Some ?te \<rparr>"
  show ?thesis
    using dataloaders_configuration [of "?m 32 4 True" ?tr 162770 ?va ?te]
      dataloaders_configuration [of "?m 32 0 False" ?tr 19867 ?va ?te]
      dataloaders_configuration [of "?m 32 4 True" ?tr 19962 ?va ?te]
      dataloaders_configuration [of "?m 0 4 True" ?tr 162770 ?va ?te]
      dataloaders_configuration [of "?m 32 4 True" ?tr 0 ?va ?te]
      dataloaders_configuration [of "?m 32 (- 1) False" ?tr 19962 ?va ?te]
    by (simp add: settings_accepted_def)
qed

section \<open>\<^verbatim>\<open>prepare_data\<close>\<close>

text \<open>
  C8. \<^verbatim>\<open>prepare_data\<close> never changes the module. It constructs datasets, each with
  \<^verbatim>\<open>download=self.download\<close>, exactly when the name is MNIST, CelebA or Flowers102; for
  LSUN, SEN12MSCR and every other name it does nothing.
\<close>

theorem prepare_data_acquisition:
  "fst (prepare_data self) = self \<and>
   (snd (prepare_data self) \<noteq> [] \<longleftrightarrow> name self \<in> {''MNIST'', ''CelebA'', ''Flowers102''}) \<and>
   (name self = ''MNIST'' \<longrightarrow>
      snd (prepare_data self) =
        [MNIST (data_dir self) True None (Some (download self)),
         MNIST (data_dir self) False None (Some (download self))]) \<and>
   (name self = ''CelebA'' \<longrightarrow>
      snd (prepare_data self) =
        [CelebA (data_dir self) ''train'' ''attr'' None (Some (download self)),
         CelebA (data_dir self) ''valid'' ''attr'' None (Some (download self)),
         CelebA (data_dir self) ''test'' ''attr'' None (Some (download self))]) \<and>
   (name self = ''Flowers102'' \<longrightarrow>
      snd (prepare_data self) =
        [Flowers102 (data_dir self) ''train'' None (Some (download self)),
         Flowers102 (data_dir self) ''val'' None (Some (download self)),
         Flowers102 (data_dir self) ''test'' None (Some (download self))]) \<and>
   (name self \<notin> {''MNIST'', ''CelebA'', ''Flowers102''} \<longrightarrow> prepare_data self = (self, []))"
  by (simp add: prepare_data_def)

section \<open>\<^verbatim>\<open>setup\<close>\<close>

lemma getitem_build_transforms:
  "getitem (build_transforms sz ch) ''train'' = Inr (the (build_transforms sz ch ''train''))"
  "getitem (build_transforms sz ch) ''val'' = Inr (the (build_transforms sz ch ''val''))"
  "getitem (build_transforms sz ch) ''test'' = Inr (the (build_transforms sz ch ''test''))"
  by (simp_all add: getitem_def build_transforms_def)

lemma build_transforms_Some:
  "Some (the (build_transforms sz ch ''train'')) = build_transforms sz ch ''train''"
  "Some (the (build_transforms sz ch ''val'')) = build_transforms sz ch ''val''"
  "Some (the (build_transforms sz ch ''test'')) = build_transforms sz ch ''test''"
  by (simp_all add: build_transforms_def)

lemma random_split_two:
  "random_split d [a, b] = [RandomSplitPart d [a, b] 0, RandomSplitPart d [a, b] 1]"
  by (simp add: random_split_def numeral_2_eq_2)

lemma setup_MNIST:
  assumes "name self = ''MNIST''" "transforms self = build_transforms sz ch"
    and "num_train_val n (train_val_split self) = Inr (a, b)"
  shows "setup_datasets n self stage =
    Inr (self\<lparr>train_dataset :=
                Some (RandomSplitPart
                  (MNIST (data_dir self) True (build_transforms sz ch ''train'') None) [a, b] 0),
              val_dataset :=
                Some (RandomSplitPart
                  (MNIST (data_dir self) True (build_transforms sz ch ''train'') None) [a, b] 1),
              test_dataset :=
                Some (MNIST (data_dir self) False (build_transforms sz ch ''test'') None)\<rparr>)"
  using assms
  by (simp add: setup_datasets_def try_then_def getitem_build_transforms Let_def
      random_split_two build_transforms_Some)

lemma setup_MNIST_raises:
  assumes "name self = ''MNIST''" "transforms self = build_transforms sz ch"
    and "num_train_val n (train_val_split self) = Inl e"
  shows "setup_datasets n self stage = Inl e"
  using assms
  by (simp add: setup_datasets_def try_then_def getitem_build_transforms Let_def)

lemma setup_LSUN:
  assumes "name self = ''LSUN''" "transforms self = build_transforms sz ch"
    and "data_dir self = Path parts"
  shows "setup_datasets n self stage =
    Inr (self\<lparr>train_dataset :=
                Some (LSUN (Path (parts @ [''LSUN''])) [''bedroom_train'']
                        (build_transforms sz ch ''train'')),
              val_dataset :=
                Some (LSUN (Path (parts @ [''LSUN''])) [''bedroom_val'']
                        (build_transforms sz ch ''val'')),
              test_dataset :=
                Some (LSUN (Path (parts @ [''LSUN''])) [''bedroom_val'']
                        (build_transforms sz ch ''test''))\<rparr>)"
  using assms
  by (simp add: setup_datasets_def try_then_def getitem_build_transforms Let_def
      path_truediv_def build_transforms_Some)

text \<open>With \<open>data_dir\<close> a string, \<^verbatim>\<open>self.data_dir / "LSUN"\<close> raises \<^verbatim>\<open>TypeError\<close>.\<close>

lemma setup_LSUN_str:
  assumes "name self = ''LSUN''" "data_dir self = Str s"
  shows "setup_datasets n self stage = Inl TypeError"
  using assms
  by (simp add: setup_datasets_def try_then_def Let_def path_truediv_def)

lemma setup_CelebA:
  assumes "name self = ''CelebA''" "transforms self = build_transforms sz ch"
  shows "setup_datasets n self stage =
    Inr (self\<lparr>train_dataset :=
                Some (CelebA (data_dir self) ''train'' ''attr'' (build_transforms sz ch ''train'') None),
              val_dataset :=
                Some (CelebA (data_dir self) ''valid'' ''attr'' (build_transforms sz ch ''val'') None),
              test_dataset :=
                Some (CelebA (data_dir self) ''test'' ''attr'' (build_transforms sz ch ''test'') None)\<rparr>)"
  using assms
  by (simp add: setup_datasets_def try_then_def getitem_build_transforms build_transforms_Some)

lemma setup_Flowers102:
  assumes "name self = ''Flowers102''" "transforms self = build_transforms sz ch"
  shows "setup_datasets n self stage =
    Inr (self\<lparr>train_dataset :=
                Some (Flowers102 (data_dir self) ''train'' (build_transforms sz ch ''train'') None),
              val_dataset :=
                Some (Flowers102 (data_dir self) ''val'' (build_transforms sz ch ''val'') None),
              test_dataset :=
                Some (Flowers102 (data_dir self) ''test'' (build_transforms sz ch ''test'') None)\<rparr>)"
  using assms
  by (simp add: setup_datasets_def try_then_def getitem_build_transforms build_transforms_Some)

lemma setup_SEN12MSCR:
  assumes "name self = ''SEN12MSCR''" "transforms self = build_transforms sz ch"
  shows "setup_datasets n self stage =
    Inr (self\<lparr>train_dataset :=
                Some (SEN12MSCR (data_dir self) ''train'' (build_transforms sz ch ''train'')),
              val_dataset :=
                Some (SEN12MSCR (data_dir self) ''val'' (build_transforms sz ch ''val'')),
              test_dataset :=
                Some (SEN12MSCR (data_dir self) ''test'' (build_transforms sz ch ''test''))\<rparr>)"
  using assms
  by (simp add: setup_datasets_def try_then_def getitem_build_transforms build_transforms_Some)

lemma setup_other:
  assumes "name self \<notin> {''MNIST'', ''LSUN'', ''CelebA'', ''Flowers102'', ''SEN12MSCR''}"
  shows "setup_datasets n self stage = Inr self"
  using assms by (simp add: setup_datasets_def)

lemma init_attrs:
  assumes "init dc nm sz ch dir bs w pm pw sp dl = Inr dm"
  shows "name dm = nm" "data_dir dm = dir" "train_val_split dm = sp"
    "transforms dm = build_transforms sz ch"
    "train_dataset dm = None" "val_dataset dm = None" "test_dataset dm = None"
    "img_channels dm = ch" "img_size dm = sz"
  using init_Inr [OF assms] by auto

lemma py_float_of_int_small:
  assumes "\<bar>k\<bar> \<le> 2 ^ 53"
  shows "py_float_of_int k = Inr (Finite (of_int k))"
proof -
  have r: "round_to_double (of_int k) = of_int k"
    using assms by (rule round_to_double_of_int)
  have "\<bar>of_int k :: rat\<bar> \<le> 2 ^ 53"
    using rat_of_int_le_2_53 [of "\<bar>k\<bar>"] assms by simp
  then have "to_pyfloat (of_int k) = Finite (of_int k)"
    using to_pyfloat_small [of "of_int k"] by (simp add: r)
  then show ?thesis
    by (simp add: py_float_of_int_def)
qed

lemma num_train_val_unit_interval:
  assumes n: "n \<le> 2 ^ 53" and s: "0 \<le> s" "s \<le> 1"
  shows "num_train_val n (Finite s) =
           Inr (\<lfloor>round_to_double (of_int (int n) * s)\<rfloor>,
                int n - \<lfloor>round_to_double (of_int (int n) * s)\<rfloor>)"
    and "0 \<le> \<lfloor>round_to_double (of_int (int n) * s)\<rfloor>"
    and "\<lfloor>round_to_double (of_int (int n) * s)\<rfloor> \<le> int n"
proof -
  define x :: rat where "x = of_int (int n) * s"
  define r where "r = round_to_double x"
  have n': "int n \<le> 2 ^ 53"
    using n by (metis of_nat_le_iff of_nat_numeral of_nat_power)
  then have f: "py_float_of_int (int n) = Inr (Finite (of_int (int n)))"
    by (intro py_float_of_int_small) simp
  have x0: "0 \<le> x"
    using s by (simp add: x_def)
  have xn: "x \<le> of_int (int n)"
    using s by (simp add: x_def mult_left_le)
  have r0: "0 \<le> r"
    unfolding r_def using x0 by (rule round_to_double_nonneg)
  have rn: "r \<le> of_int (int n)"
    unfolding r_def using x0 xn n' by (rule round_to_double_le_int)
  also have "\<dots> \<le> 2 ^ 53"
    using n' by (rule rat_of_int_le_2_53)
  finally have "\<bar>round_to_double x\<bar> \<le> 2 ^ 53"
    using r0 by (simp add: r_def)
  then have m: "to_pyfloat x = Finite r"
    unfolding r_def by (rule to_pyfloat_small)
  have "num_train_val n (Finite s) = Inr (\<lfloor>r\<rfloor>, int n - \<lfloor>r\<rfloor>)"
    unfolding num_train_val_def py_int_mul_float_def f try_then_def
    using m r0 by (simp add: x_def py_int_of_float_def)
  then show "num_train_val n (Finite s) =
           Inr (\<lfloor>round_to_double (of_int (int n) * s)\<rfloor>,
                int n - \<lfloor>round_to_double (of_int (int n) * s)\<rfloor>)"
    by (simp only: r_def x_def)
  show "0 \<le> \<lfloor>round_to_double (of_int (int n) * s)\<rfloor>"
    using r0 by (simp add: r_def x_def)
  show "\<lfloor>round_to_double (of_int (int n) * s)\<rfloor> \<le> int n"
    using rn unfolding r_def x_def by (simp only: floor_le_iff)
qed

lemma num_train_val_sum:
  assumes "num_train_val n sp = Inr (a, b)"
  shows "a + b = int n"
  using assms
  by (auto simp: num_train_val_def try_then_def split: sum.splits)

lemma num_train_val_NaN: "num_train_val 60000 NaN = Inl ValueError"
proof -
  have "py_float_of_int (int 60000) = Inr (Finite (of_int (int 60000)))"
    by (rule py_float_of_int_small) simp
  then show ?thesis
    unfolding num_train_val_def py_int_mul_float_def try_then_def
    by (simp add: py_int_of_float_def)
qed

lemma round_to_double_default_split:
  "round_to_double (60000 * (3602879701896397 / 4503599627370496)) = 48000"
  by (subst round_to_double_nonneg_low [where e = 15])
    (simp_all add: round_half_even_def Let_def floor_rat_numeral_div)

text \<open>With the default \<open>train_val_split = 0.8\<close> the 60000 items of MNIST are split into 48000
  and 12000.\<close>

lemma num_train_val_default:
  "num_train_val 60000 (Finite (3602879701896397 / 4503599627370496)) = Inr (48000, 12000)"
proof -
  have f: "py_float_of_int (int 60000) = Inr (Finite (of_int (int 60000)))"
    by (rule py_float_of_int_small) simp
  have m: "to_pyfloat (60000 * (3602879701896397 / 4503599627370496)) = Finite 48000"
    unfolding to_pyfloat_def round_to_double_default_split by (simp add: Let_def)
  have "py_float_mul (Finite (of_int (int 60000))) (Finite (3602879701896397 / 4503599627370496))
      = Finite 48000"
    using m by (simp del: times_divide_eq_right)
  then show ?thesis
    unfolding num_train_val_def py_int_mul_float_def f try_then_def
    by (simp add: py_int_of_float_def del: times_divide_eq_right)
qed

text \<open>
  C2 (as amended). On a module that the constructor built, \<^verbatim>\<open>setup\<close> looks at the name
  only. For CelebA, Flowers102 and SEN12MSCR it assigns three datasets of that class.
  For LSUN with a \<^verbatim>\<open>Path\<close> as \<open>data_dir\<close> it assigns three LSUN datasets. For MNIST it
  assigns three MNIST datasets whenever the sizes of the split can be computed, and
  raises the exception of that computation otherwise. For every other name it returns
  the module as it is, with no dataset, so that each data loader method raises
  \<^verbatim>\<open>AttributeError\<close>.
\<close>

theorem setup_dispatch_on_name:
  assumes "init dc nm sz ch dir bs w pm pw sp dl = Inr dm"
  shows "(nm \<in> {''CelebA'', ''Flowers102'', ''SEN12MSCR''} \<longrightarrow>
            (\<exists>dm'. setup_datasets n dm stage = Inr dm' \<and> all_of_family nm dm')) \<and>
         (nm = ''LSUN'' \<and> dir = Path parts \<longrightarrow>
            (\<exists>dm'. setup_datasets n dm stage = Inr dm' \<and> all_of_family nm dm')) \<and>
         (nm = ''MNIST'' \<and> num_train_val n sp = Inr k \<longrightarrow>
            (\<exists>dm'. setup_datasets n dm stage = Inr dm' \<and> all_of_family nm dm')) \<and>
         (nm = ''MNIST'' \<and> num_train_val n sp = Inl e \<longrightarrow>
            setup_datasets n dm stage = Inl e) \<and>
         (nm \<notin> {''MNIST'', ''LSUN'', ''CelebA'', ''Flowers102'', ''SEN12MSCR''} \<longrightarrow>
            setup_datasets n dm stage = Inr dm \<and>
            train_dataset dm = None \<and> val_dataset dm = None \<and> test_dataset dm = None \<and>
            train_dataloader m dm = Inl AttributeError \<and>
            val_dataloader m dm = Inl AttributeError \<and>
            test_dataloader m dm = Inl AttributeError)"
proof -
  note a = init_attrs [OF assms]
  have 1: "\<exists>dm'. setup_datasets n dm stage = Inr dm' \<and> all_of_family nm dm'"
    if "nm \<in> {''CelebA'', ''Flowers102'', ''SEN12MSCR''}"
    using that a(1,4)
    by (auto simp: setup_CelebA setup_Flowers102 setup_SEN12MSCR all_of_family_def)
  have 2: "\<exists>dm'. setup_datasets n dm stage = Inr dm' \<and> all_of_family nm dm'"
    if "nm = ''LSUN''" "dir = Path parts"
    using that a(1,2,4) by (simp add: setup_LSUN [where parts = parts] all_of_family_def)
  have 3: "\<exists>dm'. setup_datasets n dm stage = Inr dm' \<and> all_of_family nm dm'"
    if "nm = ''MNIST''" "num_train_val n sp = Inr k"
  proof -
    obtain x y where "k = (x, y)" by (cases k)
    with that a(1,3,4) show ?thesis
      by (simp add: setup_MNIST [where a = x and b = y] all_of_family_def)
  qed
  have 4: "setup_datasets n dm stage = Inl e"
    if "nm = ''MNIST''" "num_train_val n sp = Inl e"
    using that a(1,3,4) by (simp add: setup_MNIST_raises)
  have 5: "setup_datasets n dm stage = Inr dm \<and>
            train_dataset dm = None \<and> val_dataset dm = None \<and> test_dataset dm = None \<and>
            train_dataloader m dm = Inl AttributeError \<and>
            val_dataloader m dm = Inl AttributeError \<and>
            test_dataloader m dm = Inl AttributeError"
    if "nm \<notin> {''MNIST'', ''LSUN'', ''CelebA'', ''Flowers102'', ''SEN12MSCR''}"
    using that a(1,5,6,7)
    by (simp add: setup_other train_dataloader_def val_dataloader_def test_dataloader_def
        getattr_def try_then_def)
  show ?thesis
  proof (intro conjI impI)
    assume "nm \<in> {''CelebA'', ''Flowers102'', ''SEN12MSCR''}"
    then show "\<exists>dm'. setup_datasets n dm stage = Inr dm' \<and> all_of_family nm dm'"
      by (rule 1)
  next
    assume h: "nm = ''LSUN'' \<and> dir = Path parts"
    from h [THEN conjunct1] h [THEN conjunct2]
    show "\<exists>dm'. setup_datasets n dm stage = Inr dm' \<and> all_of_family nm dm'"
      by (rule 2)
  next
    assume h: "nm = ''MNIST'' \<and> num_train_val n sp = Inr k"
    from h [THEN conjunct1] h [THEN conjunct2]
    show "\<exists>dm'. setup_datasets n dm stage = Inr dm' \<and> all_of_family nm dm'"
      by (rule 3)
  next
    assume h: "nm = ''MNIST'' \<and> num_train_val n sp = Inl e"
    from h [THEN conjunct1] h [THEN conjunct2]
    show "setup_datasets n dm stage = Inl e"
      by (rule 4)
  next
    assume h: "nm \<notin> {''MNIST'', ''LSUN'', ''CelebA'', ''Flowers102'', ''SEN12MSCR''}"
    note r = 5 [OF h]
    show "setup_datasets n dm stage = Inr dm"
      using r by (elim conjE)
    show "train_dataset dm = None" "val_dataset dm = None" "test_dataset dm = None"
      by (rule a(5), rule a(6), rule a(7))
    show "train_dataloader m dm = Inl AttributeError"
      using r by (elim conjE)
    show "val_dataloader m dm = Inl AttributeError"
      using r by (elim conjE)
    show "test_dataloader m dm = Inl AttributeError"
      using r by (elim conjE)
  qed
qed


lemma init_MNIST_example:
  "init 0 ''MNIST'' 28 1 (Path [''data'']) 32 0 True True (Finite (1 / 2)) True =
     Inr (projr (init 0 ''MNIST'' 28 1 (Path [''data'']) 32 0 True True (Finite (1 / 2)) True))"
  by (rule init_succeeds [OF effective_batch_size_32]) (simp add: spec_required_channels_def)

lemma init_MNIST_NaN_example:
  "init 0 ''MNIST'' 28 1 (Path [''data'']) 32 0 True True NaN True =
     Inr (projr (init 0 ''MNIST'' 28 1 (Path [''data'']) 32 0 True True NaN True))"
  by (rule init_succeeds [OF effective_batch_size_32]) (simp add: spec_required_channels_def)

lemma init_other_example:
  "init 0 ''CIFAR10'' 32 3 (Path [''data'']) 32 0 True True (Finite (1 / 2)) True =
     Inr (projr (init 0 ''CIFAR10'' 32 3 (Path [''data'']) 32 0 True True (Finite (1 / 2)) True))"
  by (rule init_succeeds [OF effective_batch_size_32]) (simp add: spec_required_channels_def)

lemma num_train_val_half: "num_train_val 60000 (Finite (1 / 2)) = Inr (30000, 30000)"
proof -
  have "round_to_double (of_int 30000) = of_int 30000"
    by (rule round_to_double_of_int) simp
  then have r: "round_to_double 30000 = 30000"
    by simp
  have "num_train_val 60000 (Finite (1 / 2)) =
           Inr (\<lfloor>round_to_double (of_int (int 60000) * (1 / 2))\<rfloor>,
                int 60000 - \<lfloor>round_to_double (of_int (int 60000) * (1 / 2))\<rfloor>)"
    by (rule num_train_val_unit_interval) simp_all
  then show ?thesis
    by (simp add: r)
qed

text \<open>
  With \<open>train_val_split\<close> a NaN the constructor completes for MNIST, and \<^verbatim>\<open>setup\<close> raises
  \<^verbatim>\<open>ValueError\<close> at \<^verbatim>\<open>int(...)\<close> instead of assigning datasets.
\<close>

theorem setup_dispatch_counterexample:
  "\<not> isl (init 0 ''MNIST'' 28 1 (Path [''data'']) 32 0 True True NaN True) \<and>
   name (projr (init 0 ''MNIST'' 28 1 (Path [''data'']) 32 0 True True NaN True)) = ''MNIST'' \<and>
   setup_datasets 60000
     (projr (init 0 ''MNIST'' 28 1 (Path [''data'']) 32 0 True True NaN True)) None
     = Inl ValueError"
proof -
  note a = init_attrs [OF init_MNIST_NaN_example]
  have "\<not> isl (init 0 ''MNIST'' 28 1 (Path [''data'']) 32 0 True True NaN True)"
    by (subst init_MNIST_NaN_example) simp
  moreover have "setup_datasets 60000
     (projr (init 0 ''MNIST'' 28 1 (Path [''data'']) 32 0 True True NaN True)) None
     = Inl ValueError"
    by (rule setup_MNIST_raises [OF a(1) a(4)]) (simp add: a(3) num_train_val_NaN)
  ultimately show ?thesis
    using a(1) by simp
qed

theorem setup_dispatch_on_name_witness:
  "(\<exists>dm'. setup_datasets 0
       (projr (init 0 ''CelebA'' 64 3 (Path [''data'']) 32 0 True True (Finite (1 / 2)) True)) None
       = Inr dm' \<and> all_of_family ''CelebA'' dm') \<and>
   (\<exists>dm'. setup_datasets 0
       (projr (init 0 ''LSUN'' 64 3 (Path [''data'']) 32 0 True True (Finite (1 / 2)) True)) None
       = Inr dm' \<and> all_of_family ''LSUN'' dm') \<and>
   (\<exists>dm'. setup_datasets 60000
       (projr (init 0 ''MNIST'' 28 1 (Path [''data'']) 32 0 True True (Finite (1 / 2)) True)) None
       = Inr dm' \<and> all_of_family ''MNIST'' dm') \<and>
   setup_datasets 60000
       (projr (init 0 ''MNIST'' 28 1 (Path [''data'']) 32 0 True True NaN True)) None
       = Inl ValueError \<and>
   setup_datasets 0
       (projr (init 0 ''CIFAR10'' 32 3 (Path [''data'']) 32 0 True True (Finite (1 / 2)) True)) None
       = Inr (projr (init 0 ''CIFAR10'' 32 3 (Path [''data'']) 32 0 True True (Finite (1 / 2)) True)) \<and>
   train_dataloader 0
       (projr (init 0 ''CIFAR10'' 32 3 (Path [''data'']) 32 0 True True (Finite (1 / 2)) True))
       = Inl AttributeError"
proof -
  have 1: "\<exists>dm'. setup_datasets 0
       (projr (init 0 ''CelebA'' 64 3 (Path [''data'']) 32 0 True True (Finite (1 / 2)) True)) None
       = Inr dm' \<and> all_of_family ''CelebA'' dm'"
    using setup_dispatch_on_name [OF init_CelebA_example, of 0 None] by simp
  have 2: "\<exists>dm'. setup_datasets 0
       (projr (init 0 ''LSUN'' 64 3 (Path [''data'']) 32 0 True True (Finite (1 / 2)) True)) None
       = Inr dm' \<and> all_of_family ''LSUN'' dm'"
    using setup_dispatch_on_name [OF init_LSUN_example, of 0 None "[''data'']"] by simp
  have 3: "\<exists>dm'. setup_datasets 60000
       (projr (init 0 ''MNIST'' 28 1 (Path [''data'']) 32 0 True True (Finite (1 / 2)) True)) None
       = Inr dm' \<and> all_of_family ''MNIST'' dm'"
    using setup_dispatch_on_name [OF init_MNIST_example, of 60000 None _ "(30000, 30000)"]
      num_train_val_half by simp
  have 4: "setup_datasets 60000
       (projr (init 0 ''MNIST'' 28 1 (Path [''data'']) 32 0 True True NaN True)) None
       = Inl ValueError"
    using setup_dispatch_on_name [OF init_MNIST_NaN_example, of 60000 None _ _ ValueError]
      num_train_val_NaN by simp
  have 5: "setup_datasets 0
       (projr (init 0 ''CIFAR10'' 32 3 (Path [''data'']) 32 0 True True (Finite (1 / 2)) True)) None
       = Inr (projr (init 0 ''CIFAR10'' 32 3 (Path [''data'']) 32 0 True True (Finite (1 / 2)) True)) \<and>
     train_dataloader 0
       (projr (init 0 ''CIFAR10'' 32 3 (Path [''data'']) 32 0 True True (Finite (1 / 2)) True))
       = Inl AttributeError"
    using setup_dispatch_on_name [OF init_other_example, of 0 None] by simp
  from 1 2 3 4 5 show ?thesis
    by (intro conjI) (elim conjE, assumption)+
qed

theorem prepare_data_acquisition_witness:
  "prepare_data
     \<lparr> name = ''LSUN'', data_dir = Path [''data''], img_size = 64, img_channels = 3,
       batch_size = 32, num_workers = 0, pin_memory = True, persistent_workers = True,
       train_val_split = Finite (1 / 2), download = True, transforms = Map.empty,
       train_dataset = None, val_dataset = None, test_dataset = None \<rparr> =
     (\<lparr> name = ''LSUN'', data_dir = Path [''data''], img_size = 64, img_channels = 3,
       batch_size = 32, num_workers = 0, pin_memory = True, persistent_workers = True,
       train_val_split = Finite (1 / 2), download = True, transforms = Map.empty,
       train_dataset = None, val_dataset = None, test_dataset = None \<rparr>, []) \<and>
   snd (prepare_data
     \<lparr> name = ''MNIST'', data_dir = Path [''data''], img_size = 28, img_channels = 1,
       batch_size = 32, num_workers = 0, pin_memory = True, persistent_workers = True,
       train_val_split = Finite (1 / 2), download = True, transforms = Map.empty,
       train_dataset = None, val_dataset = None, test_dataset = None \<rparr>) =
     [MNIST (Path [''data'']) True None (Some True), MNIST (Path [''data'']) False None (Some True)] \<and>
   snd (prepare_data
     \<lparr> name = ''CelebA'', data_dir = Path [''data''], img_size = 64, img_channels = 3,
       batch_size = 32, num_workers = 0, pin_memory = True, persistent_workers = True,
       train_val_split = Finite (1 / 2), download = False, transforms = Map.empty,
       train_dataset = None, val_dataset = None, test_dataset = None \<rparr>) =
     [CelebA (Path [''data'']) ''train'' ''attr'' None (Some False),
      CelebA (Path [''data'']) ''valid'' ''attr'' None (Some False),
      CelebA (Path [''data'']) ''test'' ''attr'' None (Some False)]"
  using prepare_data_acquisition [of
     "\<lparr> name = ''LSUN'', data_dir = Path [''data''], img_size = 64, img_channels = 3,
       batch_size = 32, num_workers = 0, pin_memory = True, persistent_workers = True,
       train_val_split = Finite (1 / 2), download = True, transforms = Map.empty,
       train_dataset = None, val_dataset = None, test_dataset = None \<rparr>"]
    prepare_data_acquisition [of
     "\<lparr> name = ''MNIST'', data_dir = Path [''data''], img_size = 28, img_channels = 1,
       batch_size = 32, num_workers = 0, pin_memory = True, persistent_workers = True,
       train_val_split = Finite (1 / 2), download = True, transforms = Map.empty,
       train_dataset = None, val_dataset = None, test_dataset = None \<rparr>"]
    prepare_data_acquisition [of
     "\<lparr> name = ''CelebA'', data_dir = Path [''data''], img_size = 64, img_channels = 3,
       batch_size = 32, num_workers = 0, pin_memory = True, persistent_workers = True,
       train_val_split = Finite (1 / 2), download = False, transforms = Map.empty,
       train_dataset = None, val_dataset = None, test_dataset = None \<rparr>"]
  by simp

section \<open>The sizes of the MNIST split\<close>




section \<open>The splits behind the three roles\<close>

text \<open>
  C6 (as amended). For CelebA, Flowers102 and SEN12MSCR the training, validation and
  test dataset read the splits \<open>train\<close>, \<open>valid\<close> (or \<open>val\<close>) and \<open>test\<close> of the dataset.
  For MNIST, when the sizes of the split can be computed, the training and the
  validation dataset are the two parts of one random split of the \<^verbatim>\<open>train=True\<close> set
  and the test dataset is the \<^verbatim>\<open>train=False\<close> set. In these four cases the three
  datasets read pairwise separate data. For LSUN (with a \<^verbatim>\<open>Path\<close> as \<open>data_dir\<close>) the
  training dataset reads \<^verbatim>\<open>bedroom_train\<close>, and the validation and the test dataset both
  read \<^verbatim>\<open>bedroom_val\<close>: they are not separate.
\<close>

theorem setup_split_roles:
  assumes "init dc nm sz ch dir bs w pm pw sp dl = Inr dm"
  shows "(nm = ''CelebA'' \<longrightarrow>
            (\<exists>dm'. setup_datasets n dm stage = Inr dm' \<and>
               roles_read dm' (SplitId ''CelebA'' dir [''train''])
                 (SplitId ''CelebA'' dir [''valid'']) (SplitId ''CelebA'' dir [''test'']) \<and>
               roles_separate dm')) \<and>
         (nm = ''Flowers102'' \<longrightarrow>
            (\<exists>dm'. setup_datasets n dm stage = Inr dm' \<and>
               roles_read dm' (SplitId ''Flowers102'' dir [''train''])
                 (SplitId ''Flowers102'' dir [''val'']) (SplitId ''Flowers102'' dir [''test'']) \<and>
               roles_separate dm')) \<and>
         (nm = ''SEN12MSCR'' \<longrightarrow>
            (\<exists>dm'. setup_datasets n dm stage = Inr dm' \<and>
               roles_read dm' (SplitId ''SEN12MSCR'' dir [''train''])
                 (SplitId ''SEN12MSCR'' dir [''val'']) (SplitId ''SEN12MSCR'' dir [''test'']) \<and>
               roles_separate dm')) \<and>
         (nm = ''MNIST'' \<and> num_train_val n sp = Inr (a, b) \<longrightarrow>
            (\<exists>dm' full. setup_datasets n dm stage = Inr dm' \<and>
               base_split full = SplitId ''MNIST'' dir [''train=True''] \<and>
               train_dataset dm' = Some (RandomSplitPart full [a, b] 0) \<and>
               val_dataset dm' = Some (RandomSplitPart full [a, b] 1) \<and>
               roles_read dm' (SplitId ''MNIST'' dir [''train=True''])
                 (SplitId ''MNIST'' dir [''train=True'']) (SplitId ''MNIST'' dir [''train=False'']) \<and>
               roles_separate dm')) \<and>
         (nm = ''LSUN'' \<and> dir = Path parts \<longrightarrow>
            (\<exists>dm'. setup_datasets n dm stage = Inr dm' \<and>
               roles_read dm' (SplitId ''LSUN'' (Path (parts @ [''LSUN''])) [''bedroom_train''])
                 (SplitId ''LSUN'' (Path (parts @ [''LSUN''])) [''bedroom_val''])
                 (SplitId ''LSUN'' (Path (parts @ [''LSUN''])) [''bedroom_val'']) \<and>
               \<not> roles_separate dm'))"
proof -
  note a = init_attrs [OF assms]
  show ?thesis
  proof (intro conjI impI)
    assume "nm = ''CelebA''"
    with a(1,2,4) show "\<exists>dm'. setup_datasets n dm stage = Inr dm' \<and>
               roles_read dm' (SplitId ''CelebA'' dir [''train''])
                 (SplitId ''CelebA'' dir [''valid'']) (SplitId ''CelebA'' dir [''test'']) \<and>
               roles_separate dm'"
      by (simp add: setup_CelebA roles_read_def roles_separate_def)
  next
    assume "nm = ''Flowers102''"
    with a(1,2,4) show "\<exists>dm'. setup_datasets n dm stage = Inr dm' \<and>
               roles_read dm' (SplitId ''Flowers102'' dir [''train''])
                 (SplitId ''Flowers102'' dir [''val'']) (SplitId ''Flowers102'' dir [''test'']) \<and>
               roles_separate dm'"
      by (simp add: setup_Flowers102 roles_read_def roles_separate_def)
  next
    assume "nm = ''SEN12MSCR''"
    with a(1,2,4) show "\<exists>dm'. setup_datasets n dm stage = Inr dm' \<and>
               roles_read dm' (SplitId ''SEN12MSCR'' dir [''train''])
                 (SplitId ''SEN12MSCR'' dir [''val'']) (SplitId ''SEN12MSCR'' dir [''test'']) \<and>
               roles_separate dm'"
      by (simp add: setup_SEN12MSCR roles_read_def roles_separate_def)
  next
    assume h: "nm = ''MNIST'' \<and> num_train_val n sp = Inr (a, b)"
    then have s: "setup_datasets n dm stage =
      Inr (dm\<lparr>train_dataset :=
                Some (RandomSplitPart
                  (MNIST (data_dir dm) True (build_transforms sz ch ''train'') None) [a, b] 0),
              val_dataset :=
                Some (RandomSplitPart
                  (MNIST (data_dir dm) True (build_transforms sz ch ''train'') None) [a, b] 1),
              test_dataset :=
                Some (MNIST (data_dir dm) False (build_transforms sz ch ''test'') None)\<rparr>)"
      using a(1,3,4) by (intro setup_MNIST) simp_all
    show "\<exists>dm' full. setup_datasets n dm stage = Inr dm' \<and>
               base_split full = SplitId ''MNIST'' dir [''train=True''] \<and>
               train_dataset dm' = Some (RandomSplitPart full [a, b] 0) \<and>
               val_dataset dm' = Some (RandomSplitPart full [a, b] 1) \<and>
               roles_read dm' (SplitId ''MNIST'' dir [''train=True''])
                 (SplitId ''MNIST'' dir [''train=True'']) (SplitId ''MNIST'' dir [''train=False'']) \<and>
               roles_separate dm'"
      by (rule exI [of _ "dm\<lparr>train_dataset :=
                Some (RandomSplitPart
                  (MNIST (data_dir dm) True (build_transforms sz ch ''train'') None) [a, b] 0),
              val_dataset :=
                Some (RandomSplitPart
                  (MNIST (data_dir dm) True (build_transforms sz ch ''train'') None) [a, b] 1),
              test_dataset :=
                Some (MNIST (data_dir dm) False (build_transforms sz ch ''test'') None)\<rparr>"],
          rule exI [of _ "MNIST dir True (build_transforms sz ch ''train'') None"])
        (simp add: s a(2) roles_read_def roles_separate_def)
  next
    assume h: "nm = ''LSUN'' \<and> dir = Path parts"
    then show "\<exists>dm'. setup_datasets n dm stage = Inr dm' \<and>
               roles_read dm' (SplitId ''LSUN'' (Path (parts @ [''LSUN''])) [''bedroom_train''])
                 (SplitId ''LSUN'' (Path (parts @ [''LSUN''])) [''bedroom_val''])
                 (SplitId ''LSUN'' (Path (parts @ [''LSUN''])) [''bedroom_val'']) \<and>
               \<not> roles_separate dm'"
      using a(1,2,4)
      by (simp add: setup_LSUN [where parts = parts] roles_read_def roles_separate_def)
  qed
qed

text \<open>A part of a random split is not separate from the dataset it was cut from.\<close>

lemma part_not_separate_from_parent: "\<not> separate_data (RandomSplitPart d lengths k) d"
  by (cases d) simp_all

text \<open>For LSUN the validation set and the test set read the same split.\<close>

theorem setup_split_roles_counterexample:
  "\<not> isl (setup_datasets 0
       (projr (init 0 ''LSUN'' 64 3 (Path [''data'']) 32 0 True True (Finite (1 / 2)) True)) None) \<and>
   map_option base_split (val_dataset (projr (setup_datasets 0
       (projr (init 0 ''LSUN'' 64 3 (Path [''data'']) 32 0 True True (Finite (1 / 2)) True)) None)))
     = Some (SplitId ''LSUN'' (Path [''data'', ''LSUN'']) [''bedroom_val'']) \<and>
   map_option base_split (test_dataset (projr (setup_datasets 0
       (projr (init 0 ''LSUN'' 64 3 (Path [''data'']) 32 0 True True (Finite (1 / 2)) True)) None)))
     = Some (SplitId ''LSUN'' (Path [''data'', ''LSUN'']) [''bedroom_val'']) \<and>
   \<not> roles_separate (projr (setup_datasets 0
       (projr (init 0 ''LSUN'' 64 3 (Path [''data'']) 32 0 True True (Finite (1 / 2)) True)) None))"
proof -
  note a = init_attrs [OF init_LSUN_example]
  show ?thesis
    using setup_LSUN [OF a(1) a(4) a(2), of 0 None] by (simp add: roles_separate_def)
qed

theorem setup_split_roles_witness:
  "(\<exists>dm'. setup_datasets 0
       (projr (init 0 ''CelebA'' 64 3 (Path [''data'']) 32 0 True True (Finite (1 / 2)) True)) None
       = Inr dm' \<and>
       roles_read dm' (SplitId ''CelebA'' (Path [''data'']) [''train''])
         (SplitId ''CelebA'' (Path [''data'']) [''valid''])
         (SplitId ''CelebA'' (Path [''data'']) [''test'']) \<and>
       roles_separate dm') \<and>
   (\<exists>dm' full. setup_datasets 60000
       (projr (init 0 ''MNIST'' 28 1 (Path [''data'']) 32 0 True True (Finite (1 / 2)) True)) None
       = Inr dm' \<and>
       base_split full = SplitId ''MNIST'' (Path [''data'']) [''train=True''] \<and>
       train_dataset dm' = Some (RandomSplitPart full [30000, 30000] 0) \<and>
       val_dataset dm' = Some (RandomSplitPart full [30000, 30000] 1) \<and>
       roles_read dm' (SplitId ''MNIST'' (Path [''data'']) [''train=True''])
         (SplitId ''MNIST'' (Path [''data'']) [''train=True''])
         (SplitId ''MNIST'' (Path [''data'']) [''train=False'']) \<and>
       roles_separate dm') \<and>
   (\<exists>dm'. setup_datasets 0
       (projr (init 0 ''LSUN'' 64 3 (Path [''data'']) 32 0 True True (Finite (1 / 2)) True)) None
       = Inr dm' \<and>
       roles_read dm' (SplitId ''LSUN'' (Path ([''data''] @ [''LSUN''])) [''bedroom_train''])
         (SplitId ''LSUN'' (Path ([''data''] @ [''LSUN''])) [''bedroom_val''])
         (SplitId ''LSUN'' (Path ([''data''] @ [''LSUN''])) [''bedroom_val'']) \<and>
       \<not> roles_separate dm')"
proof -
  have m: "''MNIST'' = ''MNIST'' \<and> num_train_val 60000 (Finite (1 / 2)) = Inr (30000, 30000)"
    using num_train_val_half by simp
  have l: "''LSUN'' = ''LSUN'' \<and> Path [''data''] = Path [''data'']"
    by simp
  note t1 = setup_split_roles [OF init_CelebA_example, of 0 None,
      THEN conjunct1, rule_format, OF refl]
  note t2 = setup_split_roles [OF init_MNIST_example, of 60000 None 30000 30000,
      THEN conjunct2, THEN conjunct2, THEN conjunct2, THEN conjunct1, rule_format, OF m]
  note t3 = setup_split_roles [OF init_LSUN_example, of 0 None _ _ "[''data'']",
      THEN conjunct2, THEN conjunct2, THEN conjunct2, THEN conjunct2, rule_format, OF l]
  from t1 t2 t3 show ?thesis
    by (intro conjI)
qed

section \<open>The transform of each role\<close>

lemma init_default_MNIST:
  "init_default 0 (Path [''data'']) ''MNIST'' 28 1 =
     Inr (projr (init_default 0 (Path [''data'']) ''MNIST'' 28 1))"
  unfolding init_default_def
  by (rule init_succeeds [OF effective_batch_size_32]) (simp add: spec_required_channels_def)

lemma init_default_CelebA:
  "init_default 0 (Path [''data'']) ''CelebA'' 64 3 =
     Inr (projr (init_default 0 (Path [''data'']) ''CelebA'' 64 3))"
  unfolding init_default_def
  by (rule init_succeeds [OF effective_batch_size_32]) (simp add: spec_required_channels_def)

text \<open>
  For LSUN, CelebA, Flowers102 and SEN12MSCR each of the three datasets is constructed
  with the chain of its own role. For MNIST the validation dataset is a part of the
  dataset constructed with \<^verbatim>\<open>transforms["train"]\<close>.
\<close>

lemma setup_role_transforms:
  assumes "init dc nm sz ch dir bs w pm pw sp dl = Inr dm"
  shows "nm \<in> {''CelebA'', ''Flowers102'', ''SEN12MSCR''} \<Longrightarrow>
           \<exists>dm'. setup_datasets n dm stage = Inr dm' \<and> roles_apply dm' ''train'' ''val'' ''test''"
    and "nm = ''LSUN'' \<Longrightarrow> dir = Path parts \<Longrightarrow>
           \<exists>dm'. setup_datasets n dm stage = Inr dm' \<and> roles_apply dm' ''train'' ''val'' ''test''"
    and "nm = ''MNIST'' \<Longrightarrow> num_train_val n sp = Inr (a, b) \<Longrightarrow>
           \<exists>dm'. setup_datasets n dm stage = Inr dm' \<and> roles_apply dm' ''train'' ''train'' ''test''"
proof -
  note a = init_attrs [OF assms]
  show "\<exists>dm'. setup_datasets n dm stage = Inr dm' \<and> roles_apply dm' ''train'' ''val'' ''test''"
    if "nm \<in> {''CelebA'', ''Flowers102'', ''SEN12MSCR''}"
    using that a(1,4)
    by (auto simp: setup_CelebA setup_Flowers102 setup_SEN12MSCR roles_apply_def)
  show "\<exists>dm'. setup_datasets n dm stage = Inr dm' \<and> roles_apply dm' ''train'' ''val'' ''test''"
    if "nm = ''LSUN''" "dir = Path parts"
    using that a(1,2,4) by (simp add: setup_LSUN [where parts = parts] roles_apply_def)
  show "\<exists>dm'. setup_datasets n dm stage = Inr dm' \<and> roles_apply dm' ''train'' ''train'' ''test''"
    if "nm = ''MNIST''" "num_train_val n sp = Inr (a, b)"
    using that a(1,3,4) by (simp add: setup_MNIST [where a = a and b = b] roles_apply_def)
qed

text \<open>
  C4. With the defaults of the constructor and the 60000 training items of MNIST, the
  validation dataset that \<^verbatim>\<open>setup\<close> assigns applies the training chain, which ends with
  \<^verbatim>\<open>RandomHorizontalFlip(0.5)\<close>, whereas the chain under \<^verbatim>\<open>"val"\<close> has no flip. The CelebA
  branch, like the other branches, hands \<^verbatim>\<open>transforms["val"]\<close> to its validation dataset.
\<close>

theorem mnist_validation_applies_train_chain:
  "\<not> isl (init_default 0 (Path [''data'']) ''MNIST'' 28 1) \<and>
   \<not> isl (setup_datasets 60000 (projr (init_default 0 (Path [''data'']) ''MNIST'' 28 1)) None) \<and>
   map_option applied_transform
     (val_dataset (projr (setup_datasets 60000
        (projr (init_default 0 (Path [''data'']) ''MNIST'' 28 1)) None))) =
     Some (Some (Compose [ToTensor, Normalize [1 / 2] [1 / 2], CenterCropMinXY, Resize 28 True,
                          RandomHorizontalFlip (1 / 2)])) \<and>
   transforms (projr (init_default 0 (Path [''data'']) ''MNIST'' 28 1)) ''val'' =
     Some (Compose [ToTensor, Normalize [1 / 2] [1 / 2], CenterCropMinXY, Resize 28 True]) \<and>
   \<not> isl (setup_datasets 0 (projr (init_default 0 (Path [''data'']) ''CelebA'' 64 3)) None) \<and>
   map_option applied_transform
     (val_dataset (projr (setup_datasets 0
        (projr (init_default 0 (Path [''data'']) ''CelebA'' 64 3)) None))) =
     Some (transforms (projr (init_default 0 (Path [''data'']) ''CelebA'' 64 3)) ''val'')"
proof -
  note m = init_attrs [OF init_default_MNIST [unfolded init_default_def], folded init_default_def]
  note c = init_attrs [OF init_default_CelebA [unfolded init_default_def], folded init_default_def]
  have n: "num_train_val 60000
      (train_val_split (projr (init_default 0 (Path [''data'']) ''MNIST'' 28 1))) = Inr (48000, 12000)"
    unfolding m(3) by (rule num_train_val_default)
  have 1: "\<not> isl (init_default 0 (Path [''data'']) ''MNIST'' 28 1)"
    by (subst init_default_MNIST) simp
  have r: "replicate (nat 1) (1 / 2 :: rat) = [1 / 2]"
    by simp
  show ?thesis
    using 1 setup_MNIST [OF m(1) m(4) n, of None] setup_CelebA [OF c(1) c(4), of 0 None]
    by (simp add: m(4) c(4) build_transforms_def r)
qed

section \<open>A stored batch size of zero\<close>

lemma effective_batch_size_one_of_two: "effective_batch_size 2 1 = Inr 0"
  using effective_batch_size_nonneg [of 2 1] by simp

lemma init_batch_zero_example:
  "init 2 ''CelebA'' 64 3 (Path [''data'']) 1 4 True True (Finite (1 / 2)) True =
     Inr \<lparr> name = ''CelebA'', data_dir = Path [''data''], img_size = 64, img_channels = 3,
           batch_size = 0, num_workers = 4, pin_memory = True,
           persistent_workers = True, train_val_split = Finite (1 / 2),
           download = True, transforms = build_transforms 64 3,
           train_dataset = None, val_dataset = None, test_dataset = None \<rparr>"
  unfolding init_unfold [OF effective_batch_size_one_of_two]
  by (simp add: spec_required_channels_def)

text \<open>
  With two devices a batch size of 1 is stored as 0, and torch rejects the loaders of
  the module although \<open>num_workers\<close> is positive.
\<close>

theorem dataloaders_configuration_counterexample:
  "batch_size (projr (init 2 ''CelebA'' 64 3 (Path [''data'']) 1 4 True True (Finite (1 / 2)) True)) = 0 \<and>
   train_dataset (projr (setup_datasets 0
       (projr (init 2 ''CelebA'' 64 3 (Path [''data'']) 1 4 True True (Finite (1 / 2)) True)) None)) =
     Some (CelebA (Path [''data'']) ''train'' ''attr'' (build_transforms 64 3 ''train'') None) \<and>
   train_dataloader 162770 (projr (setup_datasets 0
       (projr (init 2 ''CelebA'' 64 3 (Path [''data'']) 1 4 True True (Finite (1 / 2)) True)) None)) =
     Inl ValueError \<and>
   val_dataset (projr (setup_datasets 0
       (projr (init 2 ''CelebA'' 64 3 (Path [''data'']) 1 4 True True (Finite (1 / 2)) True)) None)) =
     Some (CelebA (Path [''data'']) ''valid'' ''attr'' (build_transforms 64 3 ''val'') None) \<and>
   val_dataloader 19867 (projr (setup_datasets 0
       (projr (init 2 ''CelebA'' 64 3 (Path [''data'']) 1 4 True True (Finite (1 / 2)) True)) None)) =
     Inl ValueError"
  unfolding init_batch_zero_example
  by (simp add: setup_CelebA [where sz = 64 and ch = 3] train_dataloader_def val_dataloader_def
      getattr_def try_then_def DataLoader_init_def)

end
